theory Spec2Isabelle
  imports Main "HOL-Library.Product_Lexorder"
begin

section \<open>The store: the \<open>users\<close> queue and the \<open>tables\<close> of \<open>restaurant.py\<close>\<close>

text \<open>
  The two SQLite tables of \<open>init_db\<close> are lists of rows in rowid order. A timestamp
  (\<open>CURRENT_TIMESTAMP\<close>) is a natural number supplied by the caller as \<open>now\<close>, one
  clock reading for each call of an operation or of the message handler; text
  columns are strings; \<open>NULL\<close> is \<open>None\<close>. The \<open>AUTOINCREMENT\<close> counters of
  the two tables are the fields \<open>users_seq\<close> and \<open>tables_seq\<close>. The store never fails:
  the \<open>except sqlite3.Error\<close> handlers are not reached. Foreign-key enforcement is off, as it
  is for every sqlite3 connection that does not switch it on, so deleting a user leaves
  \<open>occupied_by_user_id\<close> as it is.
\<close>

record user_row =
  u_id :: nat
  phone_number :: string
  name :: string
  people_count :: int
  u_timestamp :: nat

record table_row =
  t_id :: nat
  table_number :: string
  capacity :: int
  status :: string
  occupied_by_user_id :: "nat option"
  occupied_timestamp :: "nat option"
  t_timestamp :: nat

record db =
  users :: "user_row list"
  tables :: "table_row list"
  users_seq :: nat
  tables_seq :: nat

type_synonym message = "string \<times> string"

definition empty_db :: db where
  "empty_db = \<lparr>users = [], tables = [], users_seq = 0, tables_seq = 0\<rparr>"

definition initial_tables_config :: "(string \<times> int) list" where
  "initial_tables_config =
     [(''T1'', 2), (''T2'', 2), (''T3'', 2), (''T4'', 2),
      (''T5'', 4), (''T6'', 4), (''T7'', 4), (''T8'', 4),
      (''T9'', 6), (''T10'', 6)]"

text \<open>\<open>INSERT OR IGNORE INTO tables (table_number, capacity, status) VALUES (?, ?, 'free')\<close>:
  ignored when the unique \<open>table_number\<close> is already there.\<close>

definition insert_or_ignore_table :: "nat \<Rightarrow> db \<Rightarrow> string \<times> int \<Rightarrow> db" where
  "insert_or_ignore_table now d cfg =
     (if fst cfg \<in> set (map table_number (tables d)) then d
      else d\<lparr>tables := tables d @
                 [\<lparr>t_id = Suc (tables_seq d), table_number = fst cfg, capacity = snd cfg,
                   status = ''free'', occupied_by_user_id = None, occupied_timestamp = None,
                   t_timestamp = now\<rparr>],
             tables_seq := Suc (tables_seq d)\<rparr>)"

definition init_db :: "nat \<Rightarrow> db \<Rightarrow> db" where
  "init_db now d = foldl (insert_or_ignore_table now) d initial_tables_config"

text \<open>\<open>save_user_data_to_db\<close>: select the id of the row with this phone number; update that
  row when there is one, insert a new row otherwise. The result is the new store and the
  returned \<open>user_id\<close> (\<open>None\<close> is Python's \<open>None\<close>).\<close>

definition save_user_data_to_db ::
  "nat \<Rightarrow> string \<Rightarrow> string \<Rightarrow> int \<Rightarrow> db \<Rightarrow> db \<times> nat option" where
  "save_user_data_to_db now phone nm cnt d =
     (case find (\<lambda>u. phone_number u = phone) (users d) of
        Some existing_user \<Rightarrow>
          (let user_id = u_id existing_user in
             (d\<lparr>users := map (\<lambda>u. if u_id u = user_id
                                    then u\<lparr>name := nm, people_count := cnt, u_timestamp := now\<rparr>
                                    else u) (users d)\<rparr>,
              Some user_id))
      | None \<Rightarrow>
          (let user_id = Suc (users_seq d) in
             (d\<lparr>users := users d @
                        [\<lparr>u_id = user_id, phone_number = phone, name = nm,
                          people_count = cnt, u_timestamp = now\<rparr>],
                users_seq := user_id\<rparr>,
              Some user_id)))"

text \<open>\<open>update_table_status_to_free\<close>: the \<open>UPDATE ... WHERE table_number = ?\<close> and
  \<open>cursor.rowcount > 0\<close>, the number of rows the \<open>WHERE\<close> matched.\<close>

definition update_table_status_to_free :: "nat \<Rightarrow> string \<Rightarrow> db \<Rightarrow> db \<times> bool" where
  "update_table_status_to_free now tn d =
     (let rowcount = length (filter (\<lambda>t. table_number t = tn) (tables d))
      in (d\<lparr>tables := map (\<lambda>t. if table_number t = tn
                                 then t\<lparr>status := ''free'', occupied_by_user_id := None,
                                        occupied_timestamp := None, t_timestamp := now\<rparr>
                                 else t) (tables d)\<rparr>,
          rowcount > 0))"

text \<open>\<open>ORDER BY timestamp ASC\<close> and \<open>ORDER BY capacity ASC\<close> are stable sorts of the rows in
  rowid order: rows with equal keys come out in rowid order.\<close>

definition get_waiting_customers :: "db \<Rightarrow> user_row list" where
  "get_waiting_customers d = sort_key u_timestamp (users d)"

text \<open>The dictionaries \<open>get_free_tables\<close> builds have the keys \<open>id\<close>, \<open>table_number\<close>
  and \<open>capacity\<close> only.\<close>

record free_table =
  ft_id :: nat
  ft_table_number :: string
  ft_capacity :: int

definition free_table_of :: "table_row \<Rightarrow> free_table" where
  "free_table_of t = \<lparr>ft_id = t_id t, ft_table_number = table_number t, ft_capacity = capacity t\<rparr>"

definition get_free_tables :: "db \<Rightarrow> free_table list" where
  "get_free_tables d =
     map free_table_of (sort_key capacity (filter (\<lambda>t. status t = ''free'') (tables d)))"

text \<open>\<open>seat_customer\<close>: mark the table with this id occupied, delete the customer from the
  queue, notify the customer. The notification is returned with the new store.\<close>

definition seat_customer ::
  "nat \<Rightarrow> nat \<Rightarrow> nat \<Rightarrow> string \<Rightarrow> string \<Rightarrow> string \<Rightarrow> db \<Rightarrow> db \<times> message list" where
  "seat_customer now customer_id table_id table_num customer_phone_number customer_name d =
     (d\<lparr>tables := map (\<lambda>t. if t_id t = table_id
                            then t\<lparr>status := ''occupied'', occupied_by_user_id := Some customer_id,
                                   occupied_timestamp := Some now, t_timestamp := now\<rparr>
                            else t) (tables d),
        users := filter (\<lambda>u. u_id u \<noteq> customer_id) (users d)\<rparr>,
      [(customer_phone_number,
        ''Great news, '' @ customer_name @ ''! Your table '' @ table_num @
        '' is ready. Please proceed to your table.'')])"

section \<open>The allocation engine: \<open>attempt_seating_allocation\<close>\<close>

text \<open>A potential allocation is the tuple \<open>(wasted_seats, customer_timestamp, customer, table)\<close>.
  The variables \<open>min_wasted_seats_for_customer\<close> and \<open>best_match_for_customer\<close> are
  assigned together, so the first is the \<open>wasted_seats\<close> of the second, and \<open>float('inf')\<close>
  when the second is \<open>None\<close>.\<close>

type_synonym allocation = "int \<times> nat \<times> user_row \<times> free_table"

definition consider_table :: "user_row \<Rightarrow> allocation option \<Rightarrow> free_table \<Rightarrow> allocation option" where
  "consider_table customer best tbl =
     (if ft_capacity tbl \<ge> people_count customer then
        (let wasted_seats = ft_capacity tbl - people_count customer in
           (case best of
              None \<Rightarrow> Some (wasted_seats, u_timestamp customer, customer, tbl)
            | Some b \<Rightarrow>
                if wasted_seats < fst b
                then Some (wasted_seats, u_timestamp customer, customer, tbl)
                else if wasted_seats = fst b
                then (if u_timestamp customer < fst (snd b)
                      then Some (wasted_seats, u_timestamp customer, customer, tbl)
                      else best)
                else best))
      else best)"

definition best_match_for_customer :: "free_table list \<Rightarrow> user_row \<Rightarrow> allocation option" where
  "best_match_for_customer free_tables customer = foldl (consider_table customer) None free_tables"

fun potential_allocations :: "free_table list \<Rightarrow> user_row list \<Rightarrow> allocation list" where
  "potential_allocations free_tables [] = []"
| "potential_allocations free_tables (customer # rest) =
     (case best_match_for_customer free_tables customer of
        Some b \<Rightarrow> b # potential_allocations free_tables rest
      | None \<Rightarrow> potential_allocations free_tables rest)"

definition allocation_key :: "allocation \<Rightarrow> int \<times> nat" where
  "allocation_key x = (fst x, fst (snd x))"

definition sorted_allocations :: "db \<Rightarrow> allocation list" where
  "sorted_allocations d =
     sort_key allocation_key (potential_allocations (get_free_tables d) (get_waiting_customers d))"

text \<open>The loop over \<open>sorted_allocations\<close>, with its two sets and its \<open>break\<close> after the first
  commit. The result is the store, the notifications sent and \<open>allocated_something\<close>.\<close>

fun execute_allocations ::
  "nat \<Rightarrow> allocation list \<Rightarrow> nat set \<Rightarrow> nat set \<Rightarrow> db \<Rightarrow> db \<times> message list \<times> bool" where
  "execute_allocations now [] seated_customer_ids occupied_table_ids d = (d, [], False)"
| "execute_allocations now ((wasted_seats, customer_timestamp, customer, tbl) # rest)
       seated_customer_ids occupied_table_ids d =
     (if u_id customer \<notin> seated_customer_ids \<and> ft_id tbl \<notin> occupied_table_ids
      then (case seat_customer now (u_id customer) (ft_id tbl) (ft_table_number tbl)
                   (phone_number customer) (name customer) d of
              (d', msgs) \<Rightarrow> (d', msgs, True))
      else execute_allocations now rest seated_customer_ids occupied_table_ids d)"

definition allocation_pass :: "nat \<Rightarrow> db \<Rightarrow> db \<times> message list \<times> bool" where
  "allocation_pass now d = execute_allocations now (sorted_allocations d) {} {} d"

subsection \<open>Every committing pass removes a waiting customer\<close>

lemma consider_table_cases:
  "consider_table c best t = best \<or>
   (people_count c \<le> ft_capacity t \<and>
    consider_table c best t = Some (ft_capacity t - people_count c, u_timestamp c, c, t))"
  by (simp add: consider_table_def Let_def split: option.split)

lemma foldl_consider_table_Some:
  "foldl (consider_table c) acc ts = Some b \<Longrightarrow>
     acc = Some b \<or>
     (\<exists>t \<in> set ts. people_count c \<le> ft_capacity t \<and>
         b = (ft_capacity t - people_count c, u_timestamp c, c, t))"
proof (induction ts arbitrary: acc)
  case Nil
  then show ?case by simp
next
  case (Cons t ts)
  from Cons.prems have "foldl (consider_table c) (consider_table c acc t) ts = Some b" by simp
  from Cons.IH [OF this] consider_table_cases [of c acc t]
  show ?case by auto
qed

lemma best_match_for_customer_Some:
  "best_match_for_customer ts c = Some b \<Longrightarrow>
     \<exists>t \<in> set ts. people_count c \<le> ft_capacity t \<and>
         b = (ft_capacity t - people_count c, u_timestamp c, c, t)"
  unfolding best_match_for_customer_def by (drule foldl_consider_table_Some) simp

lemma potential_allocations_member:
  "b \<in> set (potential_allocations ts cs) \<Longrightarrow>
     \<exists>c \<in> set cs. best_match_for_customer ts c = Some b"
  by (induction cs) (auto split: option.splits)

lemma sorted_allocations_member:
  assumes "b \<in> set (sorted_allocations d)"
  shows "\<exists>c \<in> set (users d). \<exists>t \<in> set (get_free_tables d).
           people_count c \<le> ft_capacity t \<and>
           b = (ft_capacity t - people_count c, u_timestamp c, c, t)"
proof -
  from assms obtain c where c: "c \<in> set (get_waiting_customers d)"
    and b: "best_match_for_customer (get_free_tables d) c = Some b"
    unfolding sorted_allocations_def by (auto dest: potential_allocations_member)
  from c have "c \<in> set (users d)" by (simp add: get_waiting_customers_def)
  with best_match_for_customer_Some [OF b] show ?thesis by blast
qed

lemma execute_allocations_empty_sets:
  "execute_allocations now ((w, ts, c, t) # rest) {} {} d =
     (fst (seat_customer now (u_id c) (ft_id t) (ft_table_number t) (phone_number c) (name c) d),
      snd (seat_customer now (u_id c) (ft_id t) (ft_table_number t) (phone_number c) (name c) d),
      True)"
  by (simp split: prod.split)

lemma length_filter_less_member: "x \<in> set xs \<Longrightarrow> \<not> P x \<Longrightarrow> length (filter P xs) < length xs"
  by (induction xs) (auto simp: less_Suc_eq_le)

lemma allocation_pass_decreases:
  assumes "snd (snd (allocation_pass now d))"
  shows "length (users (fst (allocation_pass now d))) < length (users d)"
proof (cases "sorted_allocations d")
  case Nil
  with assms show ?thesis by (simp add: allocation_pass_def)
next
  case (Cons a rest)
  obtain w ts c t where a: "a = (w, ts, c, t)" by (cases a) auto
  have "a \<in> set (sorted_allocations d)" using Cons by simp
  from sorted_allocations_member [OF this] a have "c \<in> set (users d)" by auto
  then have "length (filter (\<lambda>u. u_id u \<noteq> u_id c) (users d)) < length (users d)"
    by (rule length_filter_less_member) simp
  then show ?thesis
    by (simp add: allocation_pass_def Cons a seat_customer_def)
qed

text \<open>\<open>attempt_seating_allocation\<close> runs one pass and calls itself again when the pass
  allocated something. The result is the final store and the notifications of all passes.\<close>

function attempt_seating_allocation :: "nat \<Rightarrow> db \<Rightarrow> db \<times> message list" where
  "attempt_seating_allocation now d =
     (if snd (snd (allocation_pass now d))
      then (case attempt_seating_allocation now (fst (allocation_pass now d)) of
              (d', msgs) \<Rightarrow> (d', fst (snd (allocation_pass now d)) @ msgs))
      else (fst (allocation_pass now d), fst (snd (allocation_pass now d))))"
  by pat_completeness auto
termination
  by (relation "measure (\<lambda>(now, d). length (users d))") (auto simp: allocation_pass_decreases)

declare attempt_seating_allocation.simps [simp del]

section \<open>Python's string methods, on Latin-1 text\<close>

text \<open>A character is an Isabelle \<open>char\<close>, read as the code point of the same number, so a
  string is a Python \<open>str\<close> of code points below 256. On these, the whitespace of
  \<open>str.strip\<close> and \<open>str.isspace\<close> is 9 to 13, 28 to 32, 133 and 160; \<open>str.lower\<close> adds 32
  to \<open>A\<close> to \<open>Z\<close> and to 192 to 222 except 215; \<open>str.isdigit\<close> holds of \<open>0\<close> to \<open>9\<close> and
  of the superscripts 178, 179 and 185; \<open>str.upper\<close> takes 32 from \<open>a\<close> to \<open>z\<close> and from
  224 to 254 except 247, and turns 223 into \<open>SS\<close>. The capitals of 181 and 255 are the code
  points 924 and 376, which no \<open>char\<close> is: \<open>py_upper\<close> leaves the two letters as they
  are, so that it is \<open>str.upper\<close> on the texts without them, of which \<open>capitals_are_chars\<close>
  holds.\<close>

definition py_isspace :: "char \<Rightarrow> bool" where
  "py_isspace c = (of_char c \<in> {9, 10, 11, 12, 13, 28, 29, 30, 31, 32, 133, 160 :: nat})"

definition py_strip :: "string \<Rightarrow> string" where
  "py_strip s = rev (dropWhile py_isspace (rev (dropWhile py_isspace s)))"

definition is_upper_char :: "char \<Rightarrow> bool" where
  "is_upper_char c =
     ((65 \<le> (of_char c :: nat) \<and> (of_char c :: nat) \<le> 90) \<or>
      (192 \<le> (of_char c :: nat) \<and> (of_char c :: nat) \<le> 222 \<and> (of_char c :: nat) \<noteq> 215))"

definition is_lower_char :: "char \<Rightarrow> bool" where
  "is_lower_char c =
     ((97 \<le> (of_char c :: nat) \<and> (of_char c :: nat) \<le> 122) \<or>
      (224 \<le> (of_char c :: nat) \<and> (of_char c :: nat) \<le> 254 \<and> (of_char c :: nat) \<noteq> 247))"

definition py_lower_char :: "char \<Rightarrow> char" where
  "py_lower_char c = (if is_upper_char c then char_of (of_char c + 32 :: nat) else c)"

definition py_upper_char :: "char \<Rightarrow> string" where
  "py_upper_char c =
     (if is_lower_char c then [char_of (of_char c - 32 :: nat)]
      else if (of_char c :: nat) = 223 then ''SS''
      else [c])"

definition py_lower :: "string \<Rightarrow> string" where
  "py_lower s = map py_lower_char s"

definition py_upper :: "string \<Rightarrow> string" where
  "py_upper s = concat (map py_upper_char s)"


definition is_digit_char :: "char \<Rightarrow> bool" where
  "is_digit_char c =
     ((48 \<le> (of_char c :: nat) \<and> (of_char c :: nat) \<le> 57) \<or>
      of_char c \<in> {178, 179, 185 :: nat})"

definition py_isdigit :: "string \<Rightarrow> bool" where
  "py_isdigit s = (s \<noteq> [] \<and> list_all is_digit_char s)"

text \<open>\<open>s.replace(old, "")\<close>: the occurrences of \<open>old\<close> are removed from left to right,
  without looking again at what a removal joins.\<close>

function py_replace_empty :: "string \<Rightarrow> string \<Rightarrow> string" where
  "py_replace_empty old [] = []"
| "py_replace_empty old (c # cs) =
     (if old \<noteq> [] \<and> take (length old) (c # cs) = old
      then py_replace_empty old (drop (length old) (c # cs))
      else c # py_replace_empty old cs)"
  by pat_completeness auto
termination
  by (relation "measure (\<lambda>(old, s). length s)") auto

text \<open>\<open>s.split(sep)\<close> for a separator of one character.\<close>

fun py_split :: "char \<Rightarrow> string \<Rightarrow> string list" where
  "py_split sep [] = [[]]"
| "py_split sep (c # cs) =
     (if c = sep then [] # py_split sep cs
      else (case py_split sep cs of
              p # ps \<Rightarrow> (c # p) # ps
            | [] \<Rightarrow> [[c]]))"

text \<open>\<open>int(s)\<close>: the whitespace \<open>int\<close> knows (9 to 13, 32, 133 and 160, not 28 to 31) is
  dropped at both ends, then comes an optional sign, then decimal digits \<open>0\<close> to \<open>9\<close>, where
  one underscore may stand between two digits. More than 4300 digits are refused (the
  default limit of CPython 3.11). \<open>None\<close> is the \<open>ValueError\<close>.\<close>

definition py_int_space :: "char \<Rightarrow> bool" where
  "py_int_space c = (of_char c \<in> {9, 10, 11, 12, 13, 32, 133, 160 :: nat})"

definition is_decimal_char :: "char \<Rightarrow> bool" where
  "is_decimal_char c = (48 \<le> (of_char c :: nat) \<and> (of_char c :: nat) \<le> 57)"

definition digit_val :: "char \<Rightarrow> nat" where
  "digit_val c = of_char c - 48"

fun py_digits :: "string \<Rightarrow> nat \<Rightarrow> nat option" where
  "py_digits [] acc = Some acc"
| "py_digits [c] acc = (if is_decimal_char c then Some (10 * acc + digit_val c) else None)"
| "py_digits (c # d # ds) acc =
     (if is_decimal_char c then py_digits (d # ds) (10 * acc + digit_val c)
      else if c = CHR ''_'' \<and> is_decimal_char d then py_digits ds (10 * acc + digit_val d)
      else None)"

definition py_unsigned :: "string \<Rightarrow> nat option" where
  "py_unsigned s =
     (if 4300 < length (filter is_decimal_char s) then None
      else (case s of
              [] \<Rightarrow> None
            | c # cs \<Rightarrow> if is_decimal_char c then py_digits cs (digit_val c) else None))"

definition py_int :: "string \<Rightarrow> int option" where
  "py_int s =
     (case rev (dropWhile py_int_space (rev (dropWhile py_int_space s))) of
        [] \<Rightarrow> None
      | c # cs \<Rightarrow>
          if c = CHR ''-'' then map_option (\<lambda>n. - int n) (py_unsigned cs)
          else if c = CHR ''+'' then map_option int (py_unsigned cs)
          else map_option int (py_unsigned (c # cs)))"

text \<open>\<open>str(n)\<close> for an integer, as the f-strings format \<open>people_count\<close>.\<close>

definition digit_char :: "nat \<Rightarrow> char" where
  "digit_char n = char_of (48 + n)"

fun py_str_nat :: "nat \<Rightarrow> string" where
  "py_str_nat n = (if n < 10 then [digit_char n] else py_str_nat (n div 10) @ [digit_char (n mod 10)])"

declare py_str_nat.simps [simp del]

definition py_str_int :: "int \<Rightarrow> string" where
  "py_str_int i = (if i < 0 then CHR ''-'' # py_str_nat (nat (- i)) else py_str_nat (nat i))"

section \<open>The conversation: \<open>webhook\<close>\<close>

text \<open>\<open>user_states\<close> maps a phone number to its session dictionary. The system is the
  sessions, the store and the messages handed to \<open>send_message\<close>, oldest first.\<close>

record session =
  role :: string
  state :: string
  data :: "(string \<times> string) list"

record system =
  user_states :: "string \<Rightarrow> session option"
  store :: db
  outbox :: "message list"

definition initial_session :: session where
  "initial_session = \<lparr>role = ''customer'', state = ''initial'', data = []\<rparr>"

definition send_message :: "string \<Rightarrow> string \<Rightarrow> system \<Rightarrow> system" where
  "send_message recipient txt sys = sys\<lparr>outbox := outbox sys @ [(recipient, txt)]\<rparr>"

definition set_session :: "string \<Rightarrow> session \<Rightarrow> system \<Rightarrow> system" where
  "set_session sender s sys = sys\<lparr>user_states := (user_states sys)(sender \<mapsto> s)\<rparr>"

text \<open>The call of \<open>attempt_seating_allocation\<close> from the handler: the store is replaced and
  the notifications are sent.\<close>

definition run_allocation :: "nat \<Rightarrow> system \<Rightarrow> system" where
  "run_allocation now sys =
     (case attempt_seating_allocation now (store sys) of
        (d', msgs) \<Rightarrow> sys\<lparr>store := d', outbox := outbox sys @ msgs\<rparr>)"

text \<open>Lines 366 to 370: the table number a waiter's text stands for.\<close>

definition normalize_table_number :: "string \<Rightarrow> string" where
  "normalize_table_number text =
     (let table_input = py_strip (py_replace_empty ''table'' text)
      in if py_isdigit table_input then ''T'' @ table_input else py_upper table_input)"

text \<open>Lines 364 to 378: the branch for a waiter in \<open>awaiting_free_table_number\<close>.\<close>

definition free_table_step :: "nat \<Rightarrow> string \<Rightarrow> string \<Rightarrow> system \<Rightarrow> system" where
  "free_table_step now sender text sys =
     (let table_num = normalize_table_number text;
          r = update_table_status_to_free now table_num (store sys);
          sys1 = sys\<lparr>store := fst r\<rparr>;
          sys2 = (if snd r
                  then run_allocation now
                         (send_message sender
                            (''Table '' @ table_num @
                             '' marked as free. Attempting to seat waiting customers...'') sys1)
                  else send_message sender
                         (''Could not find or update table '' @ table_num @
                          ''. Please ensure the table number is correct (e.g., T1, T5, T10).'') sys1)
      in set_session sender initial_session sys2)"

text \<open>Lines 387 and 388: the unpacking of \<open>map(str.strip, text.split(","))\<close> into two names
  and \<open>int\<close>; \<open>None\<close> is the \<open>ValueError\<close> of either.\<close>

definition parse_name_people :: "string \<Rightarrow> (string \<times> int) option" where
  "parse_name_people text =
     (case map py_strip (py_split CHR '','' text) of
        [nm, people_count_str] \<Rightarrow>
          (case py_int people_count_str of
             Some n \<Rightarrow> Some (nm, n)
           | None \<Rightarrow> None)
      | _ \<Rightarrow> None)"

definition queued_message :: "string \<Rightarrow> int \<Rightarrow> string" where
  "queued_message nm cnt =
     ''Got it! '' @ nm @ '' with '' @ py_str_int cnt @
     '' people. You are in the queue. We will notify you when a table is ready.''"

text \<open>Lines 385 to 405: the branch for a customer in \<open>awaiting_name_people\<close>. \<open>if user_id:\<close>
  fails for \<open>None\<close> and for \<open>0\<close>.\<close>

definition name_people_step :: "nat \<Rightarrow> string \<Rightarrow> string \<Rightarrow> system \<Rightarrow> system" where
  "name_people_step now sender text sys =
     (case parse_name_people text of
        None \<Rightarrow>
          send_message sender
            ''Please provide name and number in format: Name, Number (e.g., John, 5)'' sys
      | Some (nm, cnt) \<Rightarrow>
          if cnt \<le> 0 then
            send_message sender
              ''Number of people must be a positive integer. Please try again.'' sys
          else if cnt > 6 then
            send_message sender
              ''We currently don't have tables for more than 6 people. Please try with a smaller group.'' sys
          else
            (let r = save_user_data_to_db now sender nm cnt (store sys);
                 sys1 = sys\<lparr>store := fst r\<rparr>
             in if snd r \<noteq> None \<and> snd r \<noteq> Some 0
                then run_allocation now
                       (set_session sender initial_session
                          (send_message sender (queued_message nm cnt) sys1))
                else send_message sender
                       ''There was an issue adding you to the queue. Please try again.'' sys1))"

text \<open>The body of the \<open>if message_type == "text"\<close> branch, for the lower-cased and stripped
  \<open>text\<close> and the session \<open>user_state\<close> of the sender.\<close>

definition handle_text :: "nat \<Rightarrow> string \<Rightarrow> string \<Rightarrow> session \<Rightarrow> system \<Rightarrow> system" where
  "handle_text now sender text user_state sys =
     (if state user_state = ''initial'' \<and> text = ''waiter'' then
        set_session sender (user_state\<lparr>state := ''awaiting_waiter_password'', role := ''waiter''\<rparr>)
          (send_message sender ''Please enter the waiter password.'' sys)
      else if state user_state = ''awaiting_waiter_password'' \<and> role user_state = ''waiter'' then
        (if text = ''waiter123'' then
           set_session sender (user_state\<lparr>state := ''awaiting_free_table_number''\<rparr>)
             (send_message sender
                ''Waiter authenticated. Please enter the table number that is now free (e.g., T4 or just 4).''
                sys)
         else
           set_session sender initial_session
             (send_message sender
                ''Incorrect password. Please try again or say 'hi' to start as a customer.'' sys))
      else if state user_state = ''awaiting_free_table_number'' \<and> role user_state = ''waiter'' then
        free_table_step now sender text sys
      else if state user_state = ''initial'' \<and> text = ''hi'' then
        set_session sender (user_state\<lparr>state := ''awaiting_name_people'', role := ''customer''\<rparr>)
          (send_message sender
             ''Enter your name and how many people are there (e.g., John, 5)'' sys)
      else if state user_state = ''awaiting_name_people'' \<and> role user_state = ''customer'' then
        name_people_step now sender text sys
      else
        send_message sender
          ''Please say 'hi' to start as a customer or 'waiter' to access waiter functions.'' sys)"

text \<open>The handling of one inbound message \<open>msg\<close> with \<open>msg["from"] = sender\<close>,
  \<open>msg["type"] = message_type\<close> and, for a text message, \<open>msg["text"]["body"] = body\<close>.\<close>

definition webhook :: "nat \<Rightarrow> string \<Rightarrow> string \<Rightarrow> string \<Rightarrow> system \<Rightarrow> system" where
  "webhook now sender message_type body sys =
     (let sys1 = (case user_states sys sender of
                    None \<Rightarrow> set_session sender initial_session sys
                  | Some s \<Rightarrow> sys);
          user_state = (case user_states sys sender of
                          None \<Rightarrow> initial_session
                        | Some s \<Rightarrow> s)
      in if message_type = ''text''
         then handle_text now sender (py_strip (py_lower body)) user_state sys1
         else send_message sender ''I can only process text messages. Please say 'hi' to start.'' sys1)"

section \<open>The vocabulary of the properties\<close>

text \<open>What the schema of \<open>users\<close> keeps true: \<open>id\<close> is a primary key handed out by the
  \<open>AUTOINCREMENT\<close> counter from 1, and \<open>phone_number\<close> is \<open>UNIQUE\<close>.\<close>

definition users_wf :: "db \<Rightarrow> bool" where
  "users_wf d =
     (distinct (map u_id (users d)) \<and> distinct (map phone_number (users d)) \<and>
      list_all (\<lambda>u. 0 < u_id u \<and> u_id u \<le> users_seq d) (users d))"

definition entries_for :: "string \<Rightarrow> db \<Rightarrow> user_row list" where
  "entries_for phone d = filter (\<lambda>u. phone_number u = phone) (users d)"

definition freed :: "table_row \<Rightarrow> bool" where
  "freed t = (status t = ''free'' \<and> occupied_by_user_id t = None \<and> occupied_timestamp t = None)"

definition without_timestamp :: "table_row \<Rightarrow> table_row" where
  "without_timestamp t = t\<lparr>t_timestamp := 0\<rparr>"

definition mark_free :: "nat \<Rightarrow> string \<Rightarrow> table_row \<Rightarrow> table_row" where
  "mark_free now tn t =
     (if table_number t = tn
      then t\<lparr>status := ''free'', occupied_by_user_id := None,
             occupied_timestamp := None, t_timestamp := now\<rparr>
      else t)"

text \<open>The operations on the store, each with the clock reading it runs at.\<close>

datatype store_op =
    Seat nat nat string string string
  | Release string
  | Enqueue string string int
  | Allocate

fun apply_op :: "db \<Rightarrow> nat \<times> store_op \<Rightarrow> db" where
  "apply_op d (now, Seat customer_id table_id table_num phone nm) =
     fst (seat_customer now customer_id table_id table_num phone nm d)"
| "apply_op d (now, Release table_num) = fst (update_table_status_to_free now table_num d)"
| "apply_op d (now, Enqueue phone nm cnt) = fst (save_user_data_to_db now phone nm cnt d)"
| "apply_op d (now, Allocate) = fst (attempt_seating_allocation now d)"

definition occupant_iff_occupied :: "table_row \<Rightarrow> bool" where
  "occupant_iff_occupied t = ((occupied_by_user_id t \<noteq> None) = (status t = ''occupied''))"

definition seated_by :: "nat \<Rightarrow> table_row \<Rightarrow> bool" where
  "seated_by customer_id t = (status t = ''occupied'' \<and> occupied_by_user_id t = Some customer_id)"

definition mark_occupied :: "nat \<Rightarrow> nat \<Rightarrow> nat \<Rightarrow> table_row \<Rightarrow> table_row" where
  "mark_occupied now customer_id table_id t =
     (if t_id t = table_id
      then t\<lparr>status := ''occupied'', occupied_by_user_id := Some customer_id,
             occupied_timestamp := Some now, t_timestamp := now\<rparr>
      else t)"

text \<open>The same run with a bound on the number of passes: \<open>None\<close> when the bound is
  reached before a pass commits nothing.\<close>

fun allocation_run :: "nat \<Rightarrow> nat \<Rightarrow> db \<Rightarrow> (db \<times> message list) option" where
  "allocation_run 0 now d = None"
| "allocation_run (Suc fuel) now d =
     (if snd (snd (allocation_pass now d))
      then (case allocation_run fuel now (fst (allocation_pass now d)) of
              None \<Rightarrow> None
            | Some (d', msgs) \<Rightarrow> Some (d', fst (snd (allocation_pass now d)) @ msgs))
      else Some (fst (allocation_pass now d), fst (snd (allocation_pass now d))))"

text \<open>A store with free tables of capacities 2, 2, 4 and 6 and two waiting parties of
  sizes 2 and 5, enqueued in that order.\<close>

definition four_free_two_waiting :: db where
  "four_free_two_waiting =
     \<lparr>users =
        [\<lparr>u_id = 1, phone_number = ''15550001'', name = ''ann'', people_count = 2, u_timestamp = 1\<rparr>,
         \<lparr>u_id = 2, phone_number = ''15550002'', name = ''bob'', people_count = 5, u_timestamp = 2\<rparr>],
      tables =
        [\<lparr>t_id = 1, table_number = ''T1'', capacity = 2, status = ''free'',
          occupied_by_user_id = None, occupied_timestamp = None, t_timestamp = 0\<rparr>,
         \<lparr>t_id = 2, table_number = ''T2'', capacity = 2, status = ''free'',
          occupied_by_user_id = None, occupied_timestamp = None, t_timestamp = 0\<rparr>,
         \<lparr>t_id = 5, table_number = ''T5'', capacity = 4, status = ''free'',
          occupied_by_user_id = None, occupied_timestamp = None, t_timestamp = 0\<rparr>,
         \<lparr>t_id = 9, table_number = ''T9'', capacity = 6, status = ''free'',
          occupied_by_user_id = None, occupied_timestamp = None, t_timestamp = 0\<rparr>],
      users_seq = 2, tables_seq = 10\<rparr>"

definition seating :: "db \<Rightarrow> (string \<times> int \<times> string \<times> nat option) list" where
  "seating d = map (\<lambda>t. (table_number t, capacity t, status t, occupied_by_user_id t)) (tables d)"

text \<open>A store with two waiting parties of size 2 and one free table of capacity 2.\<close>

definition party_ann :: user_row where
  "party_ann = \<lparr>u_id = 1, phone_number = ''15550001'', name = ''ann'', people_count = 2, u_timestamp = 1\<rparr>"

definition party_bob :: user_row where
  "party_bob = \<lparr>u_id = 2, phone_number = ''15550002'', name = ''bob'', people_count = 2, u_timestamp = 2\<rparr>"

definition table_T1 :: table_row where
  "table_T1 = \<lparr>t_id = 1, table_number = ''T1'', capacity = 2, status = ''free'',
               occupied_by_user_id = None, occupied_timestamp = None, t_timestamp = 0\<rparr>"

definition table_T2_taken :: table_row where
  "table_T2_taken = \<lparr>t_id = 2, table_number = ''T2'', capacity = 2, status = ''occupied'',
               occupied_by_user_id = Some 7, occupied_timestamp = Some 0, t_timestamp = 0\<rparr>"

definition one_free_two_waiting :: db where
  "one_free_two_waiting =
     \<lparr>users = [party_ann, party_bob], tables = [table_T1, table_T2_taken],
      users_seq = 7, tables_seq = 2\<rparr>"

text \<open>A waiter who has given the password, in front of the seeded restaurant.\<close>

definition waiter_session :: session where
  "waiter_session = \<lparr>role = ''waiter'', state = ''awaiting_free_table_number'', data = []\<rparr>"

definition waiter_at_table_prompt :: system where
  "waiter_at_table_prompt =
     \<lparr>user_states = [''15550009'' \<mapsto> waiter_session], store = init_db 0 empty_db, outbox = []\<rparr>"

text \<open>A customer who has said hi, in front of the seeded restaurant.\<close>

definition customer_session :: session where
  "customer_session = \<lparr>role = ''customer'', state = ''awaiting_name_people'', data = []\<rparr>"

definition customer_at_name_prompt :: system where
  "customer_at_name_prompt =
     \<lparr>user_states = [''15550001'' \<mapsto> customer_session], store = init_db 0 empty_db, outbox = []\<rparr>"

text \<open>A system nobody has written to, and a waiter who has been asked for the password.\<close>

definition nobody_yet :: system where
  "nobody_yet = \<lparr>user_states = Map.empty, store = init_db 0 empty_db, outbox = []\<rparr>"

definition password_session :: session where
  "password_session = \<lparr>role = ''waiter'', state = ''awaiting_waiter_password'', data = []\<rparr>"

definition waiter_at_password_prompt :: system where
  "waiter_at_password_prompt =
     \<lparr>user_states = [''15550009'' \<mapsto> password_session], store = init_db 0 empty_db, outbox = []\<rparr>"

text \<open>A sender whose session is back at \<open>initial\<close>.\<close>

definition back_at_start :: system where
  "back_at_start =
     \<lparr>user_states = [''15550001'' \<mapsto> initial_session], store = init_db 0 empty_db, outbox = []\<rparr>"

section \<open>The waitlist holds one entry per party\<close>

lemma map_if_same_id_phone:
  "phone_number \<circ> (\<lambda>u. if P u then u\<lparr>name := nm, people_count := cnt, u_timestamp := now\<rparr> else u)
     = phone_number"
  "u_id \<circ> (\<lambda>u. if P u then u\<lparr>name := nm, people_count := cnt, u_timestamp := now\<rparr> else u)
     = u_id"
  by (auto simp: fun_eq_iff)

lemma find_None_phone: "find (\<lambda>u. phone_number u = p) xs = None \<longleftrightarrow> p \<notin> set (map phone_number xs)"
  by (auto simp: find_None_iff)

lemma save_existing:
  "find (\<lambda>u. phone_number u = p) (users d) = Some e \<Longrightarrow>
     save_user_data_to_db now p nm cnt d =
       (d\<lparr>users := map (\<lambda>u. if u_id u = u_id e
                              then u\<lparr>name := nm, people_count := cnt, u_timestamp := now\<rparr>
                              else u) (users d)\<rparr>, Some (u_id e))"
  by (simp add: save_user_data_to_db_def Let_def)

lemma save_new:
  "find (\<lambda>u. phone_number u = p) (users d) = None \<Longrightarrow>
     save_user_data_to_db now p nm cnt d =
       (d\<lparr>users := users d @ [\<lparr>u_id = Suc (users_seq d), phone_number = p, name = nm,
                                  people_count = cnt, u_timestamp = now\<rparr>],
          users_seq := Suc (users_seq d)\<rparr>, Some (Suc (users_seq d)))"
  by (simp add: save_user_data_to_db_def Let_def)

lemma save_user_data_to_db_wf:
  assumes "users_wf d"
  shows "users_wf (fst (save_user_data_to_db now p nm cnt d))"
proof (cases "find (\<lambda>u. phone_number u = p) (users d)")
  case None
  then have "p \<notin> set (map phone_number (users d))" by (simp add: find_None_phone)
  moreover have "Suc (users_seq d) \<notin> set (map u_id (users d))"
    using assms by (fastforce simp: users_wf_def list_all_iff)
  ultimately show ?thesis using assms
    by (auto simp: save_new [OF None] users_wf_def list_all_iff)
next
  case (Some e)
  with assms show ?thesis
    by (auto simp: save_existing [OF Some] users_wf_def list_all_iff map_if_same_id_phone)
qed

lemma filter_phone_distinct:
  "distinct (map phone_number xs) \<Longrightarrow> e \<in> set xs \<Longrightarrow>
     filter (\<lambda>u. phone_number u = phone_number e) xs = [e]"
proof (induction xs)
  case Nil then show ?case by simp
next
  case (Cons x xs)
  show ?case
  proof (cases "x = e")
    case True
    with Cons.prems have "phone_number e \<notin> phone_number ` set xs" by simp
    then have "filter (\<lambda>u. phone_number u = phone_number e) xs = []"
      unfolding filter_empty_conv by (metis imageI)
    with True show ?thesis by simp
  next
    case False
    with Cons show ?thesis by (auto simp: image_iff)
  qed
qed

lemma entries_for_after_save:
  assumes "users_wf d"
  shows "entries_for p (fst (save_user_data_to_db now p nm cnt d)) =
           [\<lparr>u_id = the (snd (save_user_data_to_db now p nm cnt d)), phone_number = p, name = nm,
             people_count = cnt, u_timestamp = now\<rparr>]"
proof (cases "find (\<lambda>u. phone_number u = p) (users d)")
  case None
  then have "p \<notin> set (map phone_number (users d))" by (simp add: find_None_phone)
  then have "filter (\<lambda>u. phone_number u = p) (users d) = []"
    by (auto simp: filter_empty_conv)
  then show ?thesis
    by (simp add: save_new [OF None] entries_for_def)
next
  case (Some e)
  then have e: "e \<in> set (users d)" "phone_number e = p"
    by (auto simp: find_Some_iff)
  have d1: "distinct (map phone_number (users d))" and d2: "distinct (map u_id (users d))"
    using assms by (simp_all add: users_wf_def)
  let ?f = "\<lambda>u. if u_id u = u_id e
                then u\<lparr>name := nm, people_count := cnt, u_timestamp := now\<rparr> else u"
  have "filter (\<lambda>u. phone_number u = p) (map ?f (users d))
        = map ?f (filter (\<lambda>u. phone_number u = p) (users d))"
    by (simp add: filter_map comp_def if_distrib [of phone_number] cong: if_cong)
  also have "filter (\<lambda>u. phone_number u = p) (users d) = [e]"
    using filter_phone_distinct [OF d1 e(1)] e(2) by simp
  finally have "filter (\<lambda>u. phone_number u = p) (map ?f (users d)) = [?f e]" by simp
  moreover have "?f e = \<lparr>u_id = u_id e, phone_number = p, name = nm,
             people_count = cnt, u_timestamp = now\<rparr>"
    using e(2) by simp
  ultimately show ?thesis
    by (simp add: save_existing [OF Some] entries_for_def)
qed

lemma save_existing_length:
  assumes "p \<in> set (map phone_number (users d))"
  shows "length (users (fst (save_user_data_to_db now p nm cnt d))) = length (users d)"
proof -
  from assms obtain e where "find (\<lambda>u. phone_number u = p) (users d) = Some e"
    by (cases "find (\<lambda>u. phone_number u = p) (users d)") (simp_all add: find_None_phone)
  then show ?thesis by (simp add: save_existing)
qed

lemma save_returns_id:
  "snd (save_user_data_to_db now p nm cnt d) \<noteq> None"
  by (simp add: save_user_data_to_db_def Let_def split: option.split)

text \<open>
  Claim C4. Enqueueing a party identifier a second time, with any name and party size, leaves
  exactly one waitlist entry for that identifier; the entry keeps its id and carries the
  latest name, the latest size and the timestamp of the second call; the waitlist has not
  grown and holds no two entries with one phone number.
\<close>

theorem enqueue_twice_one_entry:
  fixes first_now second_now :: nat and p first_name second_name :: string and first_count second_count :: int and d :: db
  defines "d1 \<equiv> fst (save_user_data_to_db first_now p first_name first_count d)"
  defines "d2 \<equiv> fst (save_user_data_to_db second_now p second_name second_count d1)"
  assumes wf: "users_wf d"
  shows "entries_for p d2 =
           [\<lparr>u_id = the (snd (save_user_data_to_db first_now p first_name first_count d)), phone_number = p,
             name = second_name, people_count = second_count, u_timestamp = second_now\<rparr>]
         \<and> length (users d2) = length (users d1)
         \<and> distinct (map phone_number (users d2))
         \<and> snd (save_user_data_to_db second_now p second_name second_count d1) = snd (save_user_data_to_db first_now p first_name first_count d)"
proof -
  let ?e = "\<lparr>u_id = the (snd (save_user_data_to_db first_now p first_name first_count d)),
      phone_number = p, name = first_name, people_count = first_count, u_timestamp = first_now\<rparr>"
  have wf1: "users_wf d1" unfolding d1_def by (rule save_user_data_to_db_wf [OF wf])
  have wf2: "users_wf d2" unfolding d2_def by (rule save_user_data_to_db_wf [OF wf1])
  have e1: "filter (\<lambda>u. phone_number u = p) (users d1) = [?e]"
    using entries_for_after_save [OF wf, of p first_now first_name first_count] by (simp add: d1_def entries_for_def)
  obtain e' where f: "find (\<lambda>u. phone_number u = p) (users d1) = Some e'"
    using e1 by (cases "find (\<lambda>u. phone_number u = p) (users d1)")
      (auto simp: find_None_iff filter_empty_conv)
  then have "e' \<in> set (filter (\<lambda>u. phone_number u = p) (users d1))"
    by (auto simp: find_Some_iff)
  with e1 have e': "e' = ?e" by simp
  have id2: "snd (save_user_data_to_db second_now p second_name second_count d1) =
               Some (the (snd (save_user_data_to_db first_now p first_name first_count d)))"
    by (simp add: save_existing [OF f] e')
  have len: "length (users d2) = length (users d1)"
    by (simp add: d2_def save_existing [OF f])
  have "entries_for p d2 = [\<lparr>u_id = the (snd (save_user_data_to_db second_now p second_name second_count d1)),
      phone_number = p, name = second_name, people_count = second_count, u_timestamp = second_now\<rparr>]"
    unfolding d2_def by (rule entries_for_after_save [OF wf1])
  with id2 len wf2 save_returns_id [of first_now p first_name first_count d] show ?thesis
    by (auto simp: users_wf_def)
qed

theorem enqueue_twice_one_entry_witness:
  "users_wf empty_db \<and>
   entries_for ''15550001''
     (fst (save_user_data_to_db 2 ''15550001'' ''anna'' 3
        (fst (save_user_data_to_db 1 ''15550001'' ''ann'' 2 empty_db)))) =
     [\<lparr>u_id = 1, phone_number = ''15550001'', name = ''anna'', people_count = 3, u_timestamp = 2\<rparr>]"
proof -
  have wf: "users_wf empty_db" by (simp add: users_wf_def empty_db_def)
  have "the (snd (save_user_data_to_db 1 ''15550001'' ''ann'' 2 empty_db)) = 1"
    by (simp add: save_user_data_to_db_def empty_db_def)
  with wf enqueue_twice_one_entry [where d = empty_db and p = "''15550001''" and first_now = 1
      and first_name = "''ann''" and first_count = 2 and second_now = 2
      and second_name = "''anna''" and second_count = 3]
  show ?thesis by simp
qed

section \<open>Releasing a table\<close>

lemma update_table_status_to_free_unknown:
  assumes "tn \<notin> set (map table_number (tables d))"
  shows "update_table_status_to_free now tn d = (d, False)"
proof -
  from assms have "filter (\<lambda>t. table_number t = tn) (tables d) = []"
    by (auto simp: filter_empty_conv)
  moreover from assms have
    "map (\<lambda>t. if table_number t = tn
               then t\<lparr>status := ''free'', occupied_by_user_id := None,
                      occupied_timestamp := None, t_timestamp := now\<rparr>
               else t) (tables d) = tables d"
    by (intro map_idI) auto
  ultimately show ?thesis by (simp add: update_table_status_to_free_def)
qed

lemma update_table_status_to_free_tables:
  "tables (fst (update_table_status_to_free now tn d)) = map (mark_free now tn) (tables d)"
  unfolding update_table_status_to_free_def mark_free_def by simp

lemma update_table_status_to_free_rest:
  "users (fst (update_table_status_to_free now tn d)) = users d"
  "users_seq (fst (update_table_status_to_free now tn d)) = users_seq d"
  "tables_seq (fst (update_table_status_to_free now tn d)) = tables_seq d"
  by (simp_all add: update_table_status_to_free_def)

lemma mark_free_number: "table_number (mark_free now tn t) = table_number t"
  by (cases "table_number t = tn") (simp_all add: mark_free_def)

lemma mark_free_freed: "table_number t = tn \<Longrightarrow> freed (mark_free now tn t)"
  by (simp add: mark_free_def freed_def)

lemma mark_free_again:
  "without_timestamp (mark_free again tn (mark_free now tn t)) = without_timestamp (mark_free now tn t)"
  by (cases "table_number t = tn") (simp_all add: mark_free_def without_timestamp_def)

lemma mark_free_same: "mark_free now tn (mark_free now tn t) = mark_free now tn t"
  by (cases "table_number t = tn") (simp_all add: mark_free_def)

lemma update_table_status_to_free_numbers:
  "map table_number (tables (fst (update_table_status_to_free now tn d))) = map table_number (tables d)"
  by (simp add: update_table_status_to_free_tables comp_def mark_free_number)

lemma update_table_status_to_free_freed:
  "list_all freed (filter (\<lambda>t. table_number t = tn) (tables (fst (update_table_status_to_free now tn d))))"
unfolding list_all_iff update_table_status_to_free_tables
proof
  fix x
  assume "x \<in> set (filter (\<lambda>t. table_number t = tn) (map (mark_free now tn) (tables d)))"
  then obtain t where x: "x = mark_free now tn t" and "table_number x = tn" by auto
  then have "table_number t = tn" by (simp add: mark_free_number)
  then show "freed x" unfolding x by (rule mark_free_freed)
qed

lemma release_again_tables: "map without_timestamp (tables (fst (update_table_status_to_free again tn (fst (update_table_status_to_free now tn d)))))
   = map without_timestamp (tables (fst (update_table_status_to_free now tn d)))"
  by (simp add: update_table_status_to_free_tables comp_def mark_free_again)

lemma db_eqI: "users a = users b \<Longrightarrow> tables a = tables b \<Longrightarrow> users_seq a = users_seq b \<Longrightarrow>
   tables_seq a = tables_seq b \<Longrightarrow> (a :: db) = b"
  by simp

lemma update_table_status_to_free_snd:
  "snd (update_table_status_to_free now tn d) = (tn \<in> set (map table_number (tables d)))"
  by (auto simp: update_table_status_to_free_def filter_empty_conv)

lemma release_same_time: "update_table_status_to_free now tn (fst (update_table_status_to_free now tn d)) = update_table_status_to_free now tn d"
proof (rule prod_eqI)
  show "fst (update_table_status_to_free now tn (fst (update_table_status_to_free now tn d))) =
        fst (update_table_status_to_free now tn d)"
    by (rule db_eqI)
      (simp_all add: update_table_status_to_free_tables update_table_status_to_free_rest comp_def mark_free_same)
  show "snd (update_table_status_to_free now tn (fst (update_table_status_to_free now tn d))) =
        snd (update_table_status_to_free now tn d)"
    by (simp only: update_table_status_to_free_snd update_table_status_to_free_numbers)
qed

text \<open>
  Claim C5. \<open>update_table_status_to_free\<close> is idempotent. For a table number present in the
  table set, two calls in a row both return \<open>True\<close>; after either call the table is free
  with no occupant id and no occupied timestamp; the number of tables is as before; the
  second call changes nothing but the row's timestamp, and nothing at all at the same clock
  reading; the queue is untouched. For a table number not present the call returns
  \<open>False\<close> and the store is unchanged.
\<close>

theorem release_table_idempotent:
  fixes d :: db and tn :: string and now again :: nat
  defines "once \<equiv> update_table_status_to_free now tn d"
  defines "twice \<equiv> update_table_status_to_free again tn (fst once)"
  shows "(tn \<in> set (map table_number (tables d)) \<longrightarrow>
            snd once \<and> snd twice \<and>
            list_all freed (filter (\<lambda>t. table_number t = tn) (tables (fst once))) \<and>
            list_all freed (filter (\<lambda>t. table_number t = tn) (tables (fst twice))) \<and>
            filter (\<lambda>t. table_number t = tn) (tables (fst once)) \<noteq> [] \<and>
            length (tables (fst once)) = length (tables d) \<and>
            length (tables (fst twice)) = length (tables d) \<and>
            map without_timestamp (tables (fst twice)) = map without_timestamp (tables (fst once)) \<and>
            users (fst twice) = users d \<and>
            update_table_status_to_free now tn (fst once) = once) \<and>
         (tn \<notin> set (map table_number (tables d)) \<longrightarrow> once = (d, False))"
proof (intro conjI impI)
  assume known: "tn \<in> set (map table_number (tables d))"
  then have known1: "tn \<in> set (map table_number (tables (fst once)))"
    by (simp only: once_def update_table_status_to_free_numbers)
  show "snd once" unfolding once_def update_table_status_to_free_snd by (rule known)
  show "snd twice" unfolding twice_def update_table_status_to_free_snd by (rule known1)
  show "list_all freed (filter (\<lambda>t. table_number t = tn) (tables (fst once)))"
    unfolding once_def by (rule update_table_status_to_free_freed)
  show "list_all freed (filter (\<lambda>t. table_number t = tn) (tables (fst twice)))"
    unfolding twice_def by (rule update_table_status_to_free_freed)
  show "filter (\<lambda>t. table_number t = tn) (tables (fst once)) \<noteq> []"
    using known1 by (auto simp: filter_empty_conv)
  show "length (tables (fst once)) = length (tables d)"
    by (simp add: once_def update_table_status_to_free_tables)
  show "length (tables (fst twice)) = length (tables d)"
    by (simp add: once_def twice_def update_table_status_to_free_tables)
  show "map without_timestamp (tables (fst twice)) = map without_timestamp (tables (fst once))"
    unfolding once_def twice_def by (rule release_again_tables)
  show "users (fst twice) = users d"
    by (simp add: once_def twice_def update_table_status_to_free_rest)
  show "update_table_status_to_free now tn (fst once) = once"
    unfolding once_def by (rule release_same_time)
next
  assume "tn \<notin> set (map table_number (tables d))"
  then show "once = (d, False)"
    unfolding once_def by (rule update_table_status_to_free_unknown)
qed

theorem release_table_idempotent_witness:
  "''T5'' \<in> set (map table_number (tables (init_db 0 empty_db))) \<and>
   snd (update_table_status_to_free 1 ''T5'' (init_db 0 empty_db)) \<and>
   snd (update_table_status_to_free 2 ''T5''
          (fst (update_table_status_to_free 1 ''T5'' (init_db 0 empty_db)))) \<and>
   ''T11'' \<notin> set (map table_number (tables (init_db 0 empty_db))) \<and>
   update_table_status_to_free 1 ''T11'' (init_db 0 empty_db) = (init_db 0 empty_db, False)"
proof -
  have numbers: "map table_number (tables (init_db 0 empty_db)) =
      [''T1'', ''T2'', ''T3'', ''T4'', ''T5'', ''T6'', ''T7'', ''T8'', ''T9'', ''T10'']"
    by code_simp
  have known: "''T5'' \<in> set (map table_number (tables (init_db 0 empty_db)))"
    unfolding numbers by simp
  have unknown: "''T11'' \<notin> set (map table_number (tables (init_db 0 empty_db)))"
    unfolding numbers by simp
  from known unknown
    release_table_idempotent [where d = "init_db 0 empty_db" and tn = "''T5''" and now = 1 and again = 2]
    release_table_idempotent [where d = "init_db 0 empty_db" and tn = "''T11''" and now = 1 and again = 2]
  show ?thesis by blast
qed

section \<open>A table has an occupant exactly when it is occupied\<close>

lemma seat_customer_tables:
  "tables (fst (seat_customer now cid tid tn ph nm d)) = map (mark_occupied now cid tid) (tables d)"
  unfolding seat_customer_def mark_occupied_def by simp

lemma seat_customer_users:
  "users (fst (seat_customer now cid tid tn ph nm d)) = filter (\<lambda>u. u_id u \<noteq> cid) (users d)"
  unfolding seat_customer_def by simp

lemma mark_occupied_id: "t_id (mark_occupied now cid tid t) = t_id t"
  by (cases "t_id t = tid") (simp_all add: mark_occupied_def)

lemma mark_occupied_seated: "t_id t = tid \<Longrightarrow> seated_by cid (mark_occupied now cid tid t)"
  by (simp add: mark_occupied_def seated_by_def)

lemma mark_occupied_invariant:
  "occupant_iff_occupied t \<Longrightarrow> occupant_iff_occupied (mark_occupied now cid tid t)"
  by (cases "t_id t = tid") (simp_all add: mark_occupied_def occupant_iff_occupied_def)

lemma mark_free_invariant:
  "occupant_iff_occupied t \<Longrightarrow> occupant_iff_occupied (mark_free now tn t)"
  by (cases "table_number t = tn") (simp_all add: mark_free_def occupant_iff_occupied_def)

lemma seat_customer_seated:
  "list_all (seated_by cid) (filter (\<lambda>t. t_id t = tid) (tables (fst (seat_customer now cid tid tn ph nm d))))"
  unfolding list_all_iff seat_customer_tables
proof
  fix x
  assume "x \<in> set (filter (\<lambda>t. t_id t = tid) (map (mark_occupied now cid tid) (tables d)))"
  then obtain t where x: "x = mark_occupied now cid tid t" and "t_id x = tid" by auto
  then have "t_id t = tid" by (simp add: mark_occupied_id)
  then show "seated_by cid x" unfolding x by (rule mark_occupied_seated)
qed

lemma seat_customer_invariant:
  "list_all occupant_iff_occupied (tables d) \<Longrightarrow>
   list_all occupant_iff_occupied (tables (fst (seat_customer now cid tid tn ph nm d)))"
  by (simp add: seat_customer_tables list_all_iff mark_occupied_invariant)

lemma release_invariant:
  "list_all occupant_iff_occupied (tables d) \<Longrightarrow>
   list_all occupant_iff_occupied (tables (fst (update_table_status_to_free now tn d)))"
  by (simp add: update_table_status_to_free_tables list_all_iff mark_free_invariant)

lemma save_user_data_to_db_tables:
  "tables (fst (save_user_data_to_db now p nm cnt d)) = tables d"
  by (cases "find (\<lambda>u. phone_number u = p) (users d)") (simp_all add: save_existing save_new)

lemma allocation_pass_cases:
  "allocation_pass now d = (d, [], False) \<or>
   (\<exists>w ts c t. (w, ts, c, t) \<in> set (sorted_allocations d) \<and>
      allocation_pass now d =
        (fst (seat_customer now (u_id c) (ft_id t) (ft_table_number t) (phone_number c) (name c) d),
         snd (seat_customer now (u_id c) (ft_id t) (ft_table_number t) (phone_number c) (name c) d),
         True))"
proof (cases "sorted_allocations d")
  case Nil
  then show ?thesis by (simp add: allocation_pass_def)
next
  case (Cons a rest)
  obtain w ts c t where a: "a = (w, ts, c, t)" by (cases a) auto
  have "(w, ts, c, t) \<in> set (sorted_allocations d)" using Cons a by simp
  moreover have "allocation_pass now d =
        (fst (seat_customer now (u_id c) (ft_id t) (ft_table_number t) (phone_number c) (name c) d),
         snd (seat_customer now (u_id c) (ft_id t) (ft_table_number t) (phone_number c) (name c) d),
         True)"
    unfolding allocation_pass_def Cons a by (rule execute_allocations_empty_sets)
  ultimately show ?thesis by blast
qed

lemma allocation_pass_preserves:
  assumes step: "\<And>now cid tid tn ph nm d. I d \<Longrightarrow> I (fst (seat_customer now cid tid tn ph nm d))"
    and "I d"
  shows "I (fst (allocation_pass now d))"
  using allocation_pass_cases [of now d] assms by auto

lemma attempt_seating_allocation_preserves:
  assumes step: "\<And>now cid tid tn ph nm d. I d \<Longrightarrow> I (fst (seat_customer now cid tid tn ph nm d))"
  shows "I d \<Longrightarrow> I (fst (attempt_seating_allocation now d))"
proof (induction now d rule: attempt_seating_allocation.induct)
  case (1 now d)
  have pass: "I (fst (allocation_pass now d))"
    by (rule allocation_pass_preserves [OF step "1.prems"])
  show ?case
  proof (cases "snd (snd (allocation_pass now d))")
    case True
    from "1.IH" [OF True pass] True show ?thesis
      by (subst attempt_seating_allocation.simps) (simp add: split_beta)
  next
    case False
    with pass show ?thesis
      by (subst attempt_seating_allocation.simps) simp
  qed
qed

lemma insert_or_ignore_table_freed:
  "list_all freed (tables d) \<Longrightarrow> list_all freed (tables (insert_or_ignore_table now d cfg))"
  by (simp add: insert_or_ignore_table_def freed_def)

lemma foldl_insert_or_ignore_table_freed:
  "list_all freed (tables d) \<Longrightarrow> list_all freed (tables (foldl (insert_or_ignore_table now) d cfgs))"
  by (induction cfgs arbitrary: d) (simp_all add: insert_or_ignore_table_freed)

lemma init_db_freed: "list_all freed (tables (init_db now empty_db))"
  unfolding init_db_def by (rule foldl_insert_or_ignore_table_freed) (simp add: empty_db_def)

lemma freed_invariant: "freed t \<Longrightarrow> occupant_iff_occupied t"
  by (simp add: freed_def occupant_iff_occupied_def)

lemma apply_op_invariant:
  "list_all occupant_iff_occupied (tables d) \<Longrightarrow>
   list_all occupant_iff_occupied (tables (apply_op d op))"
proof (cases op)
  case (Pair now x)
  assume inv: "list_all occupant_iff_occupied (tables d)"
  show ?thesis
  proof (cases x)
    case (Seat cid tid tn ph nm)
    with Pair inv show ?thesis by (simp add: seat_customer_invariant)
  next
    case (Release tn)
    with Pair inv show ?thesis by (simp add: release_invariant)
  next
    case (Enqueue ph nm cnt)
    with Pair inv show ?thesis by (simp add: save_user_data_to_db_tables)
  next
    case Allocate
    have "list_all occupant_iff_occupied (tables (fst (attempt_seating_allocation now d)))"
      by (rule attempt_seating_allocation_preserves
            [where I = "\<lambda>d. list_all occupant_iff_occupied (tables d)"])
         (simp_all add: seat_customer_invariant inv)
    with Pair Allocate show ?thesis by simp
  qed
qed

lemma foldl_apply_op_invariant:
  "list_all occupant_iff_occupied (tables d) \<Longrightarrow>
   list_all occupant_iff_occupied (tables (foldl apply_op d ops))"
  by (induction ops arbitrary: d) (simp_all add: apply_op_invariant)

text \<open>
  Claim C9. In every store reached from the seeded empty database by any sequence of seat,
  release, enqueue and allocation operations, every table has an occupant id exactly when
  its status is \<open>occupied\<close>. Seeding creates the ten tables free with no occupant; seat
  sets the status to \<open>occupied\<close> together with the occupant id; release sets the status
  to \<open>free\<close> together with clearing the occupant id.
\<close>

theorem occupant_set_iff_occupied:
  "list_all occupant_iff_occupied (tables (foldl apply_op (init_db seeded_at empty_db) ops)) \<and>
   list_all freed (tables (init_db seeded_at empty_db)) \<and>
   length (tables (init_db seeded_at empty_db)) = 10 \<and>
   list_all (seated_by customer_id)
     (filter (\<lambda>t. t_id t = table_id)
        (tables (fst (seat_customer now customer_id table_id table_num phone nm d)))) \<and>
   list_all freed
     (filter (\<lambda>t. table_number t = table_num)
        (tables (fst (update_table_status_to_free now table_num d))))"
proof (intro conjI)
  have "list_all occupant_iff_occupied (tables (init_db seeded_at empty_db))"
    using init_db_freed [of seeded_at] by (auto simp: list_all_iff freed_invariant)
  then show "list_all occupant_iff_occupied (tables (foldl apply_op (init_db seeded_at empty_db) ops))"
    by (rule foldl_apply_op_invariant)
  show "list_all freed (tables (init_db seeded_at empty_db))" by (rule init_db_freed)
  show "length (tables (init_db seeded_at empty_db)) = 10" by code_simp
  show "list_all (seated_by customer_id)
     (filter (\<lambda>t. t_id t = table_id)
        (tables (fst (seat_customer now customer_id table_id table_num phone nm d))))"
    by (rule seat_customer_seated)
  show "list_all freed
     (filter (\<lambda>t. table_number t = table_num)
        (tables (fst (update_table_status_to_free now table_num d))))"
    by (rule update_table_status_to_free_freed)
qed

section \<open>The allocation run ends\<close>

lemma best_match_for_customer_no_tables: "best_match_for_customer [] c = None"
  by (simp add: best_match_for_customer_def)

lemma potential_allocations_no_tables: "potential_allocations [] cs = []"
  by (induction cs) (simp_all add: best_match_for_customer_no_tables)

lemma sorted_allocations_empty:
  "users d = [] \<or> get_free_tables d = [] \<Longrightarrow> sorted_allocations d = []"
  by (auto simp: sorted_allocations_def get_waiting_customers_def potential_allocations_no_tables)

lemma allocation_pass_no_candidates:
  "sorted_allocations d = [] \<Longrightarrow> allocation_pass now d = (d, [], False)"
  by (simp add: allocation_pass_def)

lemma attempt_seating_allocation_no_commit:
  "allocation_pass now d = (d, [], False) \<Longrightarrow> attempt_seating_allocation now d = (d, [])"
  by (subst attempt_seating_allocation.simps) simp

lemma attempt_seating_allocation_commit:
  "snd (snd (allocation_pass now d)) \<Longrightarrow>
   attempt_seating_allocation now d =
     (fst (attempt_seating_allocation now (fst (allocation_pass now d))),
      fst (snd (allocation_pass now d)) @ snd (attempt_seating_allocation now (fst (allocation_pass now d))))"
  by (subst attempt_seating_allocation.simps) (simp add: split_beta)

lemma allocation_run_enough:
  "length (users d) < fuel \<Longrightarrow> allocation_run fuel now d = Some (attempt_seating_allocation now d)"
proof (induction fuel arbitrary: d)
  case 0
  then show ?case by simp
next
  case (Suc fuel)
  show ?case
  proof (cases "snd (snd (allocation_pass now d))")
    case True
    from allocation_pass_decreases [OF True] Suc.prems
    have "length (users (fst (allocation_pass now d))) < fuel" by simp
    from Suc.IH [OF this] True show ?thesis
      by (simp add: attempt_seating_allocation_commit [OF True] split_beta)
  next
    case False
    then show ?thesis
      by (subst attempt_seating_allocation.simps) simp
  qed
qed

lemma attempt_seating_allocation_quiescent:
  "\<not> snd (snd (allocation_pass now (fst (attempt_seating_allocation now d))))"
proof (induction now d rule: attempt_seating_allocation.induct)
  case (1 now d)
  show ?case
  proof (cases "snd (snd (allocation_pass now d))")
    case True
    with "1.IH" show ?thesis by (simp add: attempt_seating_allocation_commit [OF True])
  next
    case False
    with allocation_pass_cases [of now d] have "allocation_pass now d = (d, [], False)" by auto
    then show ?thesis by (simp add: attempt_seating_allocation_no_commit)
  qed
qed

lemma length_filter_distinct_id:
  "distinct (map u_id xs) \<Longrightarrow> c \<in> set xs \<Longrightarrow>
     Suc (length (filter (\<lambda>u. u_id u \<noteq> u_id c) xs)) = length xs"
proof (induction xs)
  case Nil then show ?case by simp
next
  case (Cons x xs)
  show ?case
  proof (cases "u_id x = u_id c")
    case True
    with Cons.prems have "\<forall>u \<in> set xs. u_id u \<noteq> u_id c" by (auto simp: image_iff)
    then have "filter (\<lambda>u. u_id u \<noteq> u_id c) xs = xs" by (simp add: filter_id_conv)
    with True show ?thesis by simp
  next
    case False
    with Cons show ?thesis by auto
  qed
qed

lemma allocation_pass_commits_one:
  "allocation_pass now d = (d, [], False) \<or>
   (\<exists>c \<in> set (users d). \<exists>t \<in> set (get_free_tables d).
      people_count c \<le> ft_capacity t \<and>
      allocation_pass now d =
        (fst (seat_customer now (u_id c) (ft_id t) (ft_table_number t) (phone_number c) (name c) d),
         snd (seat_customer now (u_id c) (ft_id t) (ft_table_number t) (phone_number c) (name c) d),
         True) \<and>
      length (fst (snd (allocation_pass now d))) = 1 \<and>
      users (fst (allocation_pass now d)) = filter (\<lambda>u. u_id u \<noteq> u_id c) (users d))"
proof -
  from allocation_pass_cases [of now d] show ?thesis
  proof
    assume "allocation_pass now d = (d, [], False)"
    then show ?thesis by simp
  next
    assume "\<exists>w ts c t. (w, ts, c, t) \<in> set (sorted_allocations d) \<and>
      allocation_pass now d =
        (fst (seat_customer now (u_id c) (ft_id t) (ft_table_number t) (phone_number c) (name c) d),
         snd (seat_customer now (u_id c) (ft_id t) (ft_table_number t) (phone_number c) (name c) d),
         True)"
    then obtain w ts c t where mem: "(w, ts, c, t) \<in> set (sorted_allocations d)"
      and pass: "allocation_pass now d =
        (fst (seat_customer now (u_id c) (ft_id t) (ft_table_number t) (phone_number c) (name c) d),
         snd (seat_customer now (u_id c) (ft_id t) (ft_table_number t) (phone_number c) (name c) d),
         True)" by blast
    from sorted_allocations_member [OF mem]
    have c: "c \<in> set (users d)" and t: "t \<in> set (get_free_tables d)"
      and fit: "people_count c \<le> ft_capacity t" by auto
    have "length (fst (snd (allocation_pass now d))) = 1"
      by (simp add: pass seat_customer_def)
    moreover have "users (fst (allocation_pass now d)) = filter (\<lambda>u. u_id u \<noteq> u_id c) (users d)"
      by (simp add: pass seat_customer_users)
    ultimately show ?thesis using c t fit pass by blast
  qed
qed

lemma attempt_seating_allocation_count:
  "distinct (map u_id (users d)) \<Longrightarrow>
   length (users (fst (attempt_seating_allocation now d))) + length (snd (attempt_seating_allocation now d))
     = length (users d)"
proof (induction now d rule: attempt_seating_allocation.induct)
  case (1 now d)
  show ?case
  proof (cases "snd (snd (allocation_pass now d))")
    case True
    with allocation_pass_commits_one [of now d]
    obtain c where c: "c \<in> set (users d)"
      and one: "length (fst (snd (allocation_pass now d))) = 1"
      and us: "users (fst (allocation_pass now d)) = filter (\<lambda>u. u_id u \<noteq> u_id c) (users d)"
      by auto
    have "distinct (map u_id (users (fst (allocation_pass now d))))"
      unfolding us using "1.prems" by (simp add: distinct_map_filter)
    from "1.IH" [OF True this] one length_filter_distinct_id [OF "1.prems" c] us
    show ?thesis by (simp add: attempt_seating_allocation_commit [OF True])
  next
    case False
    with allocation_pass_cases [of now d] have "allocation_pass now d = (d, [], False)" by auto
    then show ?thesis by (simp add: attempt_seating_allocation_no_commit)
  qed
qed

text \<open>
  Claim C6. A pass on an empty waiting list or an empty free-table list commits nothing and
  the run ends there without a second pass. Every pass either commits nothing and leaves
  the store as it is, or seats one waiting customer at one free table that holds the party,
  sends one notification, removes that customer from the waiting list and is followed by
  another pass. So the waiting list shrinks with every committing pass (by exactly one entry
  when ids are unique), a run on a waiting list of \<open>n\<close> entries ends within \<open>n + 1\<close>
  passes, and it ends in a store where a further pass commits nothing.
\<close>

theorem allocation_run_terminates:
  "(users d = [] \<or> get_free_tables d = [] \<longrightarrow>
      allocation_pass now d = (d, [], False) \<and> attempt_seating_allocation now d = (d, [])) \<and>
   (allocation_pass now d = (d, [], False) \<or>
    (\<exists>c \<in> set (users d). \<exists>t \<in> set (get_free_tables d).
      people_count c \<le> ft_capacity t \<and>
      allocation_pass now d =
        (fst (seat_customer now (u_id c) (ft_id t) (ft_table_number t) (phone_number c) (name c) d),
         snd (seat_customer now (u_id c) (ft_id t) (ft_table_number t) (phone_number c) (name c) d),
         True) \<and>
      length (fst (snd (allocation_pass now d))) = 1 \<and>
      users (fst (allocation_pass now d)) = filter (\<lambda>u. u_id u \<noteq> u_id c) (users d))) \<and>
   (snd (snd (allocation_pass now d)) \<longrightarrow>
      length (users (fst (allocation_pass now d))) < length (users d) \<and>
      attempt_seating_allocation now d =
        (fst (attempt_seating_allocation now (fst (allocation_pass now d))),
         fst (snd (allocation_pass now d)) @
         snd (attempt_seating_allocation now (fst (allocation_pass now d))))) \<and>
   (distinct (map u_id (users d)) \<and> snd (snd (allocation_pass now d)) \<longrightarrow>
      Suc (length (users (fst (allocation_pass now d)))) = length (users d)) \<and>
   allocation_run (Suc (length (users d))) now d = Some (attempt_seating_allocation now d) \<and>
   \<not> snd (snd (allocation_pass now (fst (attempt_seating_allocation now d)))) \<and>
   (distinct (map u_id (users d)) \<longrightarrow>
      length (users (fst (attempt_seating_allocation now d))) +
      length (snd (attempt_seating_allocation now d)) = length (users d))"
proof (intro conjI impI)
  assume e: "users d = [] \<or> get_free_tables d = []"
  show p: "allocation_pass now d = (d, [], False)"
    by (rule allocation_pass_no_candidates [OF sorted_allocations_empty [OF e]])
  show "attempt_seating_allocation now d = (d, [])"
    by (rule attempt_seating_allocation_no_commit [OF p])
next
  show "allocation_pass now d = (d, [], False) \<or>
    (\<exists>c \<in> set (users d). \<exists>t \<in> set (get_free_tables d).
      people_count c \<le> ft_capacity t \<and>
      allocation_pass now d =
        (fst (seat_customer now (u_id c) (ft_id t) (ft_table_number t) (phone_number c) (name c) d),
         snd (seat_customer now (u_id c) (ft_id t) (ft_table_number t) (phone_number c) (name c) d),
         True) \<and>
      length (fst (snd (allocation_pass now d))) = 1 \<and>
      users (fst (allocation_pass now d)) = filter (\<lambda>u. u_id u \<noteq> u_id c) (users d))"
    by (rule allocation_pass_commits_one)
next
  assume c: "snd (snd (allocation_pass now d))"
  show "length (users (fst (allocation_pass now d))) < length (users d)"
    by (rule allocation_pass_decreases [OF c])
  show "attempt_seating_allocation now d =
        (fst (attempt_seating_allocation now (fst (allocation_pass now d))),
         fst (snd (allocation_pass now d)) @
         snd (attempt_seating_allocation now (fst (allocation_pass now d))))"
    by (rule attempt_seating_allocation_commit [OF c])
next
  assume a: "distinct (map u_id (users d)) \<and> snd (snd (allocation_pass now d))"
  with allocation_pass_commits_one [of now d]
  obtain c where c: "c \<in> set (users d)"
    and us: "users (fst (allocation_pass now d)) = filter (\<lambda>u. u_id u \<noteq> u_id c) (users d)"
    by auto
  from length_filter_distinct_id [OF _ c] a us
  show "Suc (length (users (fst (allocation_pass now d)))) = length (users d)" by simp
next
  show "allocation_run (Suc (length (users d))) now d = Some (attempt_seating_allocation now d)"
    by (rule allocation_run_enough) simp
  show "\<not> snd (snd (allocation_pass now (fst (attempt_seating_allocation now d))))"
    by (rule attempt_seating_allocation_quiescent)
next
  assume "distinct (map u_id (users d))"
  then show "length (users (fst (attempt_seating_allocation now d))) +
      length (snd (attempt_seating_allocation now d)) = length (users d)"
    by (rule attempt_seating_allocation_count)
qed

theorem allocation_run_terminates_witness:
  "users (init_db 0 empty_db) = [] \<and>
   attempt_seating_allocation 1 (init_db 0 empty_db) = (init_db 0 empty_db, []) \<and>
   distinct (map u_id (users (fst (save_user_data_to_db 1 ''15550001'' ''ann'' 2 (init_db 0 empty_db))))) \<and>
   snd (snd (allocation_pass 2 (fst (save_user_data_to_db 1 ''15550001'' ''ann'' 2 (init_db 0 empty_db))))) \<and>
   Suc (length (users (fst (allocation_pass 2
          (fst (save_user_data_to_db 1 ''15550001'' ''ann'' 2 (init_db 0 empty_db))))))) =
     length (users (fst (save_user_data_to_db 1 ''15550001'' ''ann'' 2 (init_db 0 empty_db))))"
proof -
  have empty: "users (init_db 0 empty_db) = []" by code_simp
  have ids: "distinct (map u_id (users (fst (save_user_data_to_db 1 ''15550001'' ''ann'' 2 (init_db 0 empty_db)))))"
    by code_simp
  have commits: "snd (snd (allocation_pass 2 (fst (save_user_data_to_db 1 ''15550001'' ''ann'' 2 (init_db 0 empty_db)))))"
    by code_simp
  from empty ids commits
    allocation_run_terminates [of "init_db 0 empty_db" 1]
    allocation_run_terminates [of "fst (save_user_data_to_db 1 ''15550001'' ''ann'' 2 (init_db 0 empty_db))" 2]
  show ?thesis by blast
qed

section \<open>Least waste first, then first come first served\<close>

lemma consider_table_unfit: "\<not> people_count c \<le> ft_capacity t \<Longrightarrow> consider_table c acc t = acc"
  by (simp add: consider_table_def)

lemma consider_table_Some_mono:
  "\<exists>b. consider_table c (Some a) t = Some b \<and> fst b \<le> fst a"
  by (cases a) (auto simp: consider_table_def Let_def)

lemma consider_table_fit:
  "people_count c \<le> ft_capacity t \<Longrightarrow>
     \<exists>b. consider_table c acc t = Some b \<and> fst b \<le> ft_capacity t - people_count c"
  by (cases acc) (auto simp: consider_table_def Let_def)

lemma foldl_consider_table_mono:
  "\<exists>b. foldl (consider_table c) (Some a) ts = Some b \<and> fst b \<le> fst a"
proof (induction ts arbitrary: a)
  case Nil
  then show ?case by simp
next
  case (Cons t ts)
  obtain a' where a': "consider_table c (Some a) t = Some a'" "fst a' \<le> fst a"
    using consider_table_Some_mono [of c a t] by blast
  from Cons.IH [of a'] a' show ?case by auto
qed

lemma foldl_consider_table_min:
  "t \<in> set ts \<Longrightarrow> people_count c \<le> ft_capacity t \<Longrightarrow>
     \<exists>b. foldl (consider_table c) acc ts = Some b \<and> fst b \<le> ft_capacity t - people_count c"
proof (induction ts arbitrary: acc)
  case Nil
  then show ?case by simp
next
  case (Cons x ts)
  show ?case
  proof (cases "x = t")
    case True
    obtain a where a: "consider_table c acc t = Some a" "fst a \<le> ft_capacity t - people_count c"
      using consider_table_fit [OF Cons.prems(2), of acc] by blast
    from foldl_consider_table_mono [of c a ts] a True show ?thesis by auto
  next
    case False
    with Cons.prems have "t \<in> set ts" by simp
    from Cons.IH [OF this Cons.prems(2), of "consider_table c acc x"] show ?thesis by simp
  qed
qed

lemma best_match_for_customer_min:
  "t \<in> set ts \<Longrightarrow> people_count c \<le> ft_capacity t \<Longrightarrow>
     \<exists>b. best_match_for_customer ts c = Some b \<and> fst b \<le> ft_capacity t - people_count c"
  unfolding best_match_for_customer_def by (rule foldl_consider_table_min)

lemma potential_allocations_complete:
  "c \<in> set cs \<Longrightarrow> best_match_for_customer ts c = Some b \<Longrightarrow> b \<in> set (potential_allocations ts cs)"
  by (induction cs) (auto split: option.splits)

lemma sort_key_head_least:
  assumes "x \<in> set xs"
  shows "\<exists>y ys. sort_key f xs = y # ys \<and> f y \<le> f x"
proof (cases "sort_key f xs")
  case Nil
  then have "set (sort_key f xs) = {}" by simp
  with assms show ?thesis by simp
next
  case (Cons y ys)
  have "sorted (map f (sort_key f xs))" by simp
  moreover have "x \<in> set (sort_key f xs)" using assms by simp
  ultimately have "f y \<le> f x" unfolding Cons by auto
  with Cons show ?thesis by simp
qed

lemma allocation_key_le: "allocation_key a \<le> allocation_key b \<Longrightarrow> fst a \<le> fst b"
  by (auto simp: allocation_key_def less_eq_prod_def)

lemma allocation_pass_least_waste:
  assumes c: "c \<in> set (users d)" and t: "t \<in> set (get_free_tables d)"
    and fit: "people_count c \<le> ft_capacity t"
  shows "\<exists>c' \<in> set (users d). \<exists>t' \<in> set (get_free_tables d).
           people_count c' \<le> ft_capacity t' \<and>
           ft_capacity t' - people_count c' \<le> ft_capacity t - people_count c \<and>
           allocation_pass now d =
             (fst (seat_customer now (u_id c') (ft_id t') (ft_table_number t') (phone_number c') (name c') d),
              snd (seat_customer now (u_id c') (ft_id t') (ft_table_number t') (phone_number c') (name c') d),
              True)"
proof -
  obtain b where b: "best_match_for_customer (get_free_tables d) c = Some b"
    and bw: "fst b \<le> ft_capacity t - people_count c"
    using best_match_for_customer_min [OF t fit] by blast
  have "c \<in> set (get_waiting_customers d)" using c by (simp add: get_waiting_customers_def)
  from potential_allocations_complete [OF this b]
  have "b \<in> set (potential_allocations (get_free_tables d) (get_waiting_customers d))" .
  from sort_key_head_least [OF this, of allocation_key]
  obtain y ys where s: "sorted_allocations d = y # ys" and le: "allocation_key y \<le> allocation_key b"
    unfolding sorted_allocations_def by blast
  have "y \<in> set (sorted_allocations d)" using s by simp
  from sorted_allocations_member [OF this]
  obtain c' t' where c': "c' \<in> set (users d)" and t': "t' \<in> set (get_free_tables d)"
    and fit': "people_count c' \<le> ft_capacity t'"
    and y: "y = (ft_capacity t' - people_count c', u_timestamp c', c', t')" by blast
  have "ft_capacity t' - people_count c' \<le> ft_capacity t - people_count c"
    using allocation_key_le [OF le] bw y by simp
  moreover have "allocation_pass now d =
     (fst (seat_customer now (u_id c') (ft_id t') (ft_table_number t') (phone_number c') (name c') d),
      snd (seat_customer now (u_id c') (ft_id t') (ft_table_number t') (phone_number c') (name c') d),
      True)"
    unfolding allocation_pass_def s y by (rule execute_allocations_empty_sets)
  ultimately show ?thesis using c' t' fit' by blast
qed

lemma four_free_two_waiting_run:
  "users (fst (attempt_seating_allocation 3 four_free_two_waiting)) = [] \<and>
   seating (fst (attempt_seating_allocation 3 four_free_two_waiting)) =
     [(''T1'', 2, ''occupied'', Some 1), (''T2'', 2, ''free'', None),
      (''T5'', 4, ''free'', None), (''T9'', 6, ''occupied'', Some 2)] \<and>
   snd (attempt_seating_allocation 3 four_free_two_waiting) =
     [(''15550001'', ''Great news, ann! Your table T1 is ready. Please proceed to your table.''),
      (''15550002'', ''Great news, bob! Your table T9 is ready. Please proceed to your table.'')]"
  by code_simp

lemma execute_allocations_first_unclaimed:
  "execute_allocations now xs seated occupied d =
     (case find (\<lambda>(w, ts, c, t). u_id c \<notin> seated \<and> ft_id t \<notin> occupied) xs of
        None \<Rightarrow> (d, [], False)
      | Some (w, ts, c, t) \<Rightarrow>
          (fst (seat_customer now (u_id c) (ft_id t) (ft_table_number t) (phone_number c) (name c) d),
           snd (seat_customer now (u_id c) (ft_id t) (ft_table_number t) (phone_number c) (name c) d),
           True))"
  by (induction now xs seated occupied d rule: execute_allocations.induct)
     (simp_all add: split_beta)

lemma sorted_allocations_order:
  "sorted_wrt (\<lambda>a b. fst a < fst b \<or> (fst a = fst b \<and> fst (snd a) \<le> fst (snd b)))
     (sorted_allocations d)"
proof -
  have "sorted (map allocation_key (sorted_allocations d))"
    by (simp add: sorted_allocations_def)
  then have "sorted_wrt (\<lambda>a b. allocation_key a \<le> allocation_key b) (sorted_allocations d)"
    by (simp add: sorted_map)
  then show ?thesis
    by (rule sorted_wrt_mono_rel [rotated]) (auto simp: allocation_key_def less_eq_prod_def)
qed

lemma foldl_consider_table_filter:
  "foldl (consider_table c) acc ts =
   foldl (consider_table c) acc (filter (\<lambda>t. people_count c \<le> ft_capacity t) ts)"
  by (induction ts arbitrary: acc) (simp_all add: consider_table_unfit)

lemma fitting_free_tables:
  "filter (\<lambda>t. n \<le> ft_capacity t) (get_free_tables d) =
   map free_table_of (sort_key capacity (filter (\<lambda>t. status t = ''free'' \<and> n \<le> capacity t) (tables d)))"
proof -
  have "filter (\<lambda>t. n \<le> ft_capacity t) (get_free_tables d) =
        map free_table_of (filter (\<lambda>t. n \<le> capacity t)
          (sort_key capacity (filter (\<lambda>t. status t = ''free'') (tables d))))"
    by (simp add: get_free_tables_def filter_map comp_def free_table_of_def)
  also have "filter (\<lambda>t. n \<le> capacity t) (sort_key capacity (filter (\<lambda>t. status t = ''free'') (tables d)))
     = sort_key capacity (filter (\<lambda>t. status t = ''free'' \<and> n \<le> capacity t) (tables d))"
    by (simp add: filter_sort)
  finally show ?thesis .
qed

lemma best_match_for_customer_fitting:
  "best_match_for_customer (get_free_tables d) c =
   foldl (consider_table c) None
     (map free_table_of (sort_key capacity
        (filter (\<lambda>t. status t = ''free'' \<and> people_count c \<le> capacity t) (tables d))))"
  unfolding best_match_for_customer_def
  by (subst foldl_consider_table_filter) (simp only: fitting_free_tables)

lemma best_match_for_customer_only_table:
  assumes "filter (\<lambda>t. status t = ''free'' \<and> people_count c \<le> capacity t) (tables d) = [t]"
  shows "best_match_for_customer (get_free_tables d) c =
           Some (capacity t - people_count c, u_timestamp c, c, free_table_of t)"
proof -
  have "t \<in> set (filter (\<lambda>t. status t = ''free'' \<and> people_count c \<le> capacity t) (tables d))"
    unfolding assms by simp
  then have "people_count c \<le> capacity t" by simp
  then show ?thesis
    by (simp add: best_match_for_customer_fitting assms consider_table_def free_table_of_def)
qed

lemma best_match_for_customer_no_table:
  assumes "filter (\<lambda>t. status t = ''free'' \<and> people_count c \<le> capacity t) (tables d) = []"
  shows "best_match_for_customer (get_free_tables d) c = None"
  by (simp add: best_match_for_customer_fitting assms)

lemma mark_occupied_status: "t_id x = tid \<Longrightarrow> status (mark_occupied now cid tid x) = ''occupied''"
  by (simp add: mark_occupied_def)

lemma mark_occupied_other: "t_id x \<noteq> tid \<Longrightarrow> mark_occupied now cid tid x = x"
  by (simp add: mark_occupied_def)

lemma no_fitting_table_left:
  assumes one: "filter (\<lambda>t. status t = ''free'' \<and> n \<le> capacity t) (tables d) = [t]"
  shows "filter (\<lambda>t. status t = ''free'' \<and> n \<le> capacity t)
           (tables (fst (seat_customer now cid (t_id t) tn ph nm d))) = []"
  unfolding seat_customer_tables filter_empty_conv
proof
  fix y
  assume "y \<in> set (map (mark_occupied now cid (t_id t)) (tables d))"
  then obtain x where x: "x \<in> set (tables d)" and y: "y = mark_occupied now cid (t_id t) x" by auto
  show "\<not> (status y = ''free'' \<and> n \<le> capacity y)"
  proof (cases "t_id x = t_id t")
    case True
    then show ?thesis unfolding y by (simp add: mark_occupied_status)
  next
    case False
    then have yx: "y = x" unfolding y by (rule mark_occupied_other)
    show ?thesis
    proof
      assume "status y = ''free'' \<and> n \<le> capacity y"
      with x yx have "x \<in> set (filter (\<lambda>t. status t = ''free'' \<and> n \<le> capacity t) (tables d))"
        by simp
      then have "x = t" unfolding one by simp
      with False show False by simp
    qed
  qed
qed

lemma fcfs_two_parties:
  assumes two: "users d = [u1, u2] \<or> users d = [u2, u1]"
    and ids: "u_id u1 \<noteq> u_id u2"
    and size: "people_count u1 = people_count u2"
    and order: "u_timestamp u1 < u_timestamp u2"
    and one: "filter (\<lambda>t. status t = ''free'' \<and> people_count u1 \<le> capacity t) (tables d) = [t]"
  shows "attempt_seating_allocation now d =
           seat_customer now (u_id u1) (t_id t) (table_number t) (phone_number u1) (name u1) d"
    and "users (fst (attempt_seating_allocation now d)) = [u2]"
proof -
  let ?d1 = "fst (seat_customer now (u_id u1) (t_id t) (table_number t) (phone_number u1) (name u1) d)"
  let ?w = "capacity t - people_count u1"
  have waiting: "get_waiting_customers d = [u1, u2]"
    using two order by (auto simp: get_waiting_customers_def)
  have b1: "best_match_for_customer (get_free_tables d) u1 =
      Some (?w, u_timestamp u1, u1, free_table_of t)"
    by (rule best_match_for_customer_only_table [OF one])
  have b2: "best_match_for_customer (get_free_tables d) u2 =
      Some (?w, u_timestamp u2, u2, free_table_of t)"
    using best_match_for_customer_only_table [of u2 d t] one size by simp
  have sorted: "sorted_allocations d =
      [(?w, u_timestamp u1, u1, free_table_of t), (?w, u_timestamp u2, u2, free_table_of t)]"
    using order by (simp add: sorted_allocations_def waiting b1 b2 allocation_key_def less_eq_prod_def)
  have pass1: "allocation_pass now d = (?d1,
      snd (seat_customer now (u_id u1) (t_id t) (table_number t) (phone_number u1) (name u1) d), True)"
    by (simp add: allocation_pass_def sorted free_table_of_def split_beta)
  have users1: "users ?d1 = [u2]"
    using two ids by (auto simp: seat_customer_users)
  have "filter (\<lambda>t. status t = ''free'' \<and> people_count u2 \<le> capacity t) (tables ?d1) = []"
    using no_fitting_table_left [OF one] size by simp
  then have "best_match_for_customer (get_free_tables ?d1) u2 = None"
    by (rule best_match_for_customer_no_table)
  then have "sorted_allocations ?d1 = []"
    by (simp add: sorted_allocations_def get_waiting_customers_def users1)
  then have pass2: "allocation_pass now ?d1 = (?d1, [], False)"
    by (rule allocation_pass_no_candidates)
  have commit: "snd (snd (allocation_pass now d))" by (simp add: pass1)
  show run: "attempt_seating_allocation now d =
      seat_customer now (u_id u1) (t_id t) (table_number t) (phone_number u1) (name u1) d"
    by (simp add: attempt_seating_allocation_commit [OF commit] pass1
          attempt_seating_allocation_no_commit [OF pass2])
  show "users (fst (attempt_seating_allocation now d)) = [u2]"
    unfolding run by (rule users1)
qed

text \<open>
  Claim C1. From free tables of capacities 2, 2, 4 and 6 and waiting parties of sizes 2 and
  5 enqueued in that order, the allocation run seats the party of 5 at the table of capacity
  6 and the party of 2 at a table of capacity 2. In general, whenever some waiting customer
  fits some free table, the pass commits an assignment that wastes no more seats than that
  pair would; so when a pair with zero wasted seats exists, the pass commits an assignment
  with zero wasted seats, never one with positive waste.
\<close>

theorem zero_waste_never_skipped:
  "users (fst (attempt_seating_allocation 3 four_free_two_waiting)) = [] \<and>
   seating (fst (attempt_seating_allocation 3 four_free_two_waiting)) =
     [(''T1'', 2, ''occupied'', Some 1), (''T2'', 2, ''free'', None),
      (''T5'', 4, ''free'', None), (''T9'', 6, ''occupied'', Some 2)] \<and>
   snd (attempt_seating_allocation 3 four_free_two_waiting) =
     [(''15550001'', ''Great news, ann! Your table T1 is ready. Please proceed to your table.''),
      (''15550002'', ''Great news, bob! Your table T9 is ready. Please proceed to your table.'')] \<and>
   (c \<in> set (users d) \<and> t \<in> set (get_free_tables d) \<and> people_count c \<le> ft_capacity t \<longrightarrow>
      (\<exists>c' \<in> set (users d). \<exists>t' \<in> set (get_free_tables d).
         people_count c' \<le> ft_capacity t' \<and>
         ft_capacity t' - people_count c' \<le> ft_capacity t - people_count c \<and>
         allocation_pass now d =
           (fst (seat_customer now (u_id c') (ft_id t') (ft_table_number t') (phone_number c') (name c') d),
            snd (seat_customer now (u_id c') (ft_id t') (ft_table_number t') (phone_number c') (name c') d),
            True))) \<and>
   (c \<in> set (users d) \<and> t \<in> set (get_free_tables d) \<and> ft_capacity t = people_count c \<longrightarrow>
      (\<exists>c' \<in> set (users d). \<exists>t' \<in> set (get_free_tables d).
         ft_capacity t' - people_count c' = 0 \<and>
         allocation_pass now d =
           (fst (seat_customer now (u_id c') (ft_id t') (ft_table_number t') (phone_number c') (name c') d),
            snd (seat_customer now (u_id c') (ft_id t') (ft_table_number t') (phone_number c') (name c') d),
            True)))"
proof (intro conjI impI)
  show "users (fst (attempt_seating_allocation 3 four_free_two_waiting)) = []"
    using four_free_two_waiting_run by blast
  show "seating (fst (attempt_seating_allocation 3 four_free_two_waiting)) =
     [(''T1'', 2, ''occupied'', Some 1), (''T2'', 2, ''free'', None),
      (''T5'', 4, ''free'', None), (''T9'', 6, ''occupied'', Some 2)]"
    using four_free_two_waiting_run by blast
  show "snd (attempt_seating_allocation 3 four_free_two_waiting) =
     [(''15550001'', ''Great news, ann! Your table T1 is ready. Please proceed to your table.''),
      (''15550002'', ''Great news, bob! Your table T9 is ready. Please proceed to your table.'')]"
    using four_free_two_waiting_run by blast
next
  assume "c \<in> set (users d) \<and> t \<in> set (get_free_tables d) \<and> people_count c \<le> ft_capacity t"
  then show "\<exists>c' \<in> set (users d). \<exists>t' \<in> set (get_free_tables d).
         people_count c' \<le> ft_capacity t' \<and>
         ft_capacity t' - people_count c' \<le> ft_capacity t - people_count c \<and>
         allocation_pass now d =
           (fst (seat_customer now (u_id c') (ft_id t') (ft_table_number t') (phone_number c') (name c') d),
            snd (seat_customer now (u_id c') (ft_id t') (ft_table_number t') (phone_number c') (name c') d),
            True)"
    using allocation_pass_least_waste [of c d t now] by blast
next
  assume a: "c \<in> set (users d) \<and> t \<in> set (get_free_tables d) \<and> ft_capacity t = people_count c"
  then have "people_count c \<le> ft_capacity t" by simp
  with a allocation_pass_least_waste [of c d t now]
  obtain c' t' where c': "c' \<in> set (users d)" and t': "t' \<in> set (get_free_tables d)"
    and fit: "people_count c' \<le> ft_capacity t'"
    and le: "ft_capacity t' - people_count c' \<le> ft_capacity t - people_count c"
    and pass: "allocation_pass now d =
           (fst (seat_customer now (u_id c') (ft_id t') (ft_table_number t') (phone_number c') (name c') d),
            snd (seat_customer now (u_id c') (ft_id t') (ft_table_number t') (phone_number c') (name c') d),
            True)" by blast
  from fit le a have "ft_capacity t' - people_count c' = 0" by simp
  with c' t' pass show "\<exists>c' \<in> set (users d). \<exists>t' \<in> set (get_free_tables d).
         ft_capacity t' - people_count c' = 0 \<and>
         allocation_pass now d =
           (fst (seat_customer now (u_id c') (ft_id t') (ft_table_number t') (phone_number c') (name c') d),
            snd (seat_customer now (u_id c') (ft_id t') (ft_table_number t') (phone_number c') (name c') d),
            True)" by blast
qed

theorem zero_waste_never_skipped_witness:
  "party_ann \<in> set (users one_free_two_waiting) \<and>
   free_table_of table_T1 \<in> set (get_free_tables one_free_two_waiting) \<and>
   ft_capacity (free_table_of table_T1) = people_count party_ann \<and>
   (\<exists>c' \<in> set (users one_free_two_waiting). \<exists>t' \<in> set (get_free_tables one_free_two_waiting).
         ft_capacity t' - people_count c' = 0 \<and>
         allocation_pass 3 one_free_two_waiting =
           (fst (seat_customer 3 (u_id c') (ft_id t') (ft_table_number t') (phone_number c') (name c')
                   one_free_two_waiting),
            snd (seat_customer 3 (u_id c') (ft_id t') (ft_table_number t') (phone_number c') (name c')
                   one_free_two_waiting),
            True))"
proof -
  have c: "party_ann \<in> set (users one_free_two_waiting)"
    by (simp add: one_free_two_waiting_def)
  have "get_free_tables one_free_two_waiting = [free_table_of table_T1]"
    by (simp add: get_free_tables_def one_free_two_waiting_def table_T1_def table_T2_taken_def)
  then have t: "free_table_of table_T1 \<in> set (get_free_tables one_free_two_waiting)" by simp
  have e: "ft_capacity (free_table_of table_T1) = people_count party_ann"
    by (simp add: free_table_of_def table_T1_def party_ann_def)
  from c t e
    zero_waste_never_skipped [of party_ann one_free_two_waiting "free_table_of table_T1" 3]
  show ?thesis by blast
qed

text \<open>
  Claim C2. In every pass the pool of candidates is ordered by wasted seats ascending and
  then by enqueue timestamp ascending, and the loop commits the first candidate whose
  customer and table are both unclaimed. Hence, for two waiting parties of equal size
  enqueued at times \<open>t1 < t2\<close> and exactly one free table of sufficient capacity, the run
  seats the party enqueued at \<open>t1\<close> at that table and the party enqueued at \<open>t2\<close> stays
  on the waitlist.
\<close>

theorem fcfs_tie_break:
  "sorted_wrt (\<lambda>a b. fst a < fst b \<or> (fst a = fst b \<and> fst (snd a) \<le> fst (snd b)))
     (sorted_allocations d) \<and>
   allocation_pass now d = execute_allocations now (sorted_allocations d) {} {} d \<and>
   execute_allocations now xs seated occupied d =
     (case find (\<lambda>(w, ts, c, t). u_id c \<notin> seated \<and> ft_id t \<notin> occupied) xs of
        None \<Rightarrow> (d, [], False)
      | Some (w, ts, c, t) \<Rightarrow>
          (fst (seat_customer now (u_id c) (ft_id t) (ft_table_number t) (phone_number c) (name c) d),
           snd (seat_customer now (u_id c) (ft_id t) (ft_table_number t) (phone_number c) (name c) d),
           True)) \<and>
   ((users d = [u1, u2] \<or> users d = [u2, u1]) \<and>
    u_id u1 \<noteq> u_id u2 \<and>
    people_count u1 = people_count u2 \<and>
    u_timestamp u1 < u_timestamp u2 \<and>
    filter (\<lambda>t. status t = ''free'' \<and> people_count u1 \<le> capacity t) (tables d) = [tbl] \<longrightarrow>
      attempt_seating_allocation now d =
        seat_customer now (u_id u1) (t_id tbl) (table_number tbl) (phone_number u1) (name u1) d \<and>
      users (fst (attempt_seating_allocation now d)) = [u2] \<and>
      list_all (seated_by (u_id u1))
        (filter (\<lambda>t. t_id t = t_id tbl) (tables (fst (attempt_seating_allocation now d)))))"
proof (intro conjI impI)
  show "sorted_wrt (\<lambda>a b. fst a < fst b \<or> (fst a = fst b \<and> fst (snd a) \<le> fst (snd b)))
     (sorted_allocations d)" by (rule sorted_allocations_order)
  show "allocation_pass now d = execute_allocations now (sorted_allocations d) {} {} d"
    by (rule allocation_pass_def)
  show "execute_allocations now xs seated occupied d =
     (case find (\<lambda>(w, ts, c, t). u_id c \<notin> seated \<and> ft_id t \<notin> occupied) xs of
        None \<Rightarrow> (d, [], False)
      | Some (w, ts, c, t) \<Rightarrow>
          (fst (seat_customer now (u_id c) (ft_id t) (ft_table_number t) (phone_number c) (name c) d),
           snd (seat_customer now (u_id c) (ft_id t) (ft_table_number t) (phone_number c) (name c) d),
           True))" by (rule execute_allocations_first_unclaimed)
next
  assume a: "(users d = [u1, u2] \<or> users d = [u2, u1]) \<and>
    u_id u1 \<noteq> u_id u2 \<and>
    people_count u1 = people_count u2 \<and>
    u_timestamp u1 < u_timestamp u2 \<and>
    filter (\<lambda>t. status t = ''free'' \<and> people_count u1 \<le> capacity t) (tables d) = [tbl]"
  then have two: "users d = [u1, u2] \<or> users d = [u2, u1]" and ids: "u_id u1 \<noteq> u_id u2"
    and size: "people_count u1 = people_count u2" and order: "u_timestamp u1 < u_timestamp u2"
    and one: "filter (\<lambda>t. status t = ''free'' \<and> people_count u1 \<le> capacity t) (tables d) = [tbl]"
    by blast+
  show run: "attempt_seating_allocation now d =
        seat_customer now (u_id u1) (t_id tbl) (table_number tbl) (phone_number u1) (name u1) d"
    by (rule fcfs_two_parties(1) [OF two ids size order one])
  show "users (fst (attempt_seating_allocation now d)) = [u2]"
    by (rule fcfs_two_parties(2) [OF two ids size order one])
  show "list_all (seated_by (u_id u1))
        (filter (\<lambda>t. t_id t = t_id tbl) (tables (fst (attempt_seating_allocation now d))))"
    unfolding run by (rule seat_customer_seated)
qed

theorem fcfs_tie_break_witness:
  "users one_free_two_waiting = [party_ann, party_bob] \<and>
   u_id party_ann \<noteq> u_id party_bob \<and>
   people_count party_ann = people_count party_bob \<and>
   u_timestamp party_ann < u_timestamp party_bob \<and>
   filter (\<lambda>t. status t = ''free'' \<and> people_count party_ann \<le> capacity t)
     (tables one_free_two_waiting) = [table_T1] \<and>
   users (fst (attempt_seating_allocation 3 one_free_two_waiting)) = [party_bob] \<and>
   snd (attempt_seating_allocation 3 one_free_two_waiting) =
     [(''15550001'', ''Great news, ann! Your table T1 is ready. Please proceed to your table.'')]"
proof -
  have two: "users one_free_two_waiting = [party_ann, party_bob]"
    by (simp add: one_free_two_waiting_def)
  have ids: "u_id party_ann \<noteq> u_id party_bob" by (simp add: party_ann_def party_bob_def)
  have size: "people_count party_ann = people_count party_bob"
    by (simp add: party_ann_def party_bob_def)
  have order: "u_timestamp party_ann < u_timestamp party_bob"
    by (simp add: party_ann_def party_bob_def)
  have one: "filter (\<lambda>t. status t = ''free'' \<and> people_count party_ann \<le> capacity t)
     (tables one_free_two_waiting) = [table_T1]"
    by (simp add: one_free_two_waiting_def party_ann_def table_T1_def table_T2_taken_def)
  have msg: "snd (seat_customer 3 (u_id party_ann) (t_id table_T1) (table_number table_T1)
                (phone_number party_ann) (name party_ann) one_free_two_waiting) =
     [(''15550001'', ''Great news, ann! Your table T1 is ready. Please proceed to your table.'')]"
    by (simp add: seat_customer_def party_ann_def table_T1_def)
  from two ids size order one
    fcfs_tie_break [of one_free_two_waiting 3 "[]" "{}" "{}" party_ann party_bob table_T1]
  have run: "attempt_seating_allocation 3 one_free_two_waiting =
        seat_customer 3 (u_id party_ann) (t_id table_T1) (table_number table_T1)
          (phone_number party_ann) (name party_ann) one_free_two_waiting"
    and left: "users (fst (attempt_seating_allocation 3 one_free_two_waiting)) = [party_bob]"
    by blast+
  have sent: "snd (attempt_seating_allocation 3 one_free_two_waiting) =
     [(''15550001'', ''Great news, ann! Your table T1 is ready. Please proceed to your table.'')]"
    unfolding run by (rule msg)
  from two ids size order one left sent show ?thesis by blast
qed

section \<open>The conversation steps\<close>

subsection \<open>Splitting at the comma\<close>

lemma py_split_nonempty: "py_split sep s \<noteq> []"
  by (induction s) (auto split: list.splits)

lemma py_split_no_sep: "sep \<notin> set s \<Longrightarrow> py_split sep s = [s]"
  by (induction s) auto

lemma py_split_append: "sep \<notin> set a \<Longrightarrow> py_split sep (a @ sep # b) = a # py_split sep b"
  by (induction a) auto

lemma py_split_two: "sep \<notin> set a \<Longrightarrow> sep \<notin> set b \<Longrightarrow> py_split sep (a @ sep # b) = [a, b]"
  by (simp add: py_split_append py_split_no_sep)

lemma py_split_Cons:
  "py_split sep s = p # ps \<Longrightarrow>
     sep \<notin> set p \<and> (if ps = [] then s = p else \<exists>rest. s = p @ sep # rest \<and> py_split sep rest = ps)"
proof (induction s arbitrary: p ps)
  case Nil
  then show ?case by simp
next
  case (Cons c s)
  show ?case
  proof (cases "c = sep")
    case True
    with Cons.prems have "p = []" "ps = py_split sep s" by simp_all
    with True py_split_nonempty [of sep s] show ?thesis by auto
  next
    case False
    obtain q qs where q: "py_split sep s = q # qs"
      using py_split_nonempty [of sep s] by (cases "py_split sep s") auto
    with False Cons.prems have p: "p = c # q" "ps = qs" by simp_all
    from Cons.IH [OF q] False p show ?thesis by (auto split: if_splits)
  qed
qed

lemma py_split_two_iff:
  "py_split sep s = [a, b] \<longleftrightarrow> s = a @ sep # b \<and> sep \<notin> set a \<and> sep \<notin> set b"
proof
  assume s: "py_split sep s = [a, b]"
  from py_split_Cons [OF s] obtain rest where a: "sep \<notin> set a" and r: "s = a @ sep # rest"
    and rest: "py_split sep rest = [b]" by auto
  from py_split_Cons [OF rest] have "sep \<notin> set b" "rest = b" by auto
  with a r show "s = a @ sep # b \<and> sep \<notin> set a \<and> sep \<notin> set b" by simp
next
  assume "s = a @ sep # b \<and> sep \<notin> set a \<and> sep \<notin> set b"
  then show "py_split sep s = [a, b]" by (simp add: py_split_two)
qed

lemma parse_name_people_iff:
  "parse_name_people text = Some (nm, n) \<longleftrightarrow>
     (\<exists>a b. text = a @ CHR '','' # b \<and> CHR '','' \<notin> set a \<and> CHR '','' \<notin> set b \<and>
            nm = py_strip a \<and> py_int (py_strip b) = Some n)"
proof
  assume p: "parse_name_people text = Some (nm, n)"
  then obtain a b where ab: "py_split CHR '','' text = [a, b]"
    unfolding parse_name_people_def
    by (auto split: list.splits option.splits)
  with p have "nm = py_strip a" "py_int (py_strip b) = Some n"
    unfolding parse_name_people_def by (auto split: option.splits)
  with ab show "\<exists>a b. text = a @ CHR '','' # b \<and> CHR '','' \<notin> set a \<and> CHR '','' \<notin> set b \<and>
            nm = py_strip a \<and> py_int (py_strip b) = Some n"
    unfolding py_split_two_iff by blast
next
  assume "\<exists>a b. text = a @ CHR '','' # b \<and> CHR '','' \<notin> set a \<and> CHR '','' \<notin> set b \<and>
            nm = py_strip a \<and> py_int (py_strip b) = Some n"
  then obtain a b where "py_split CHR '','' text = [a, b]" "nm = py_strip a" "py_int (py_strip b) = Some n"
    using py_split_two_iff [of "CHR '',''" "text"] by blast
  then show "parse_name_people text = Some (nm, n)"
    by (simp add: parse_name_people_def)
qed

subsection \<open>The branch a session takes\<close>

lemma session_step:
  assumes "user_states sys sender = Some s"
  shows "webhook now sender ''text'' body sys = handle_text now sender (py_strip (py_lower body)) s sys"
  using assms by (simp add: webhook_def)

lemma handle_text_name_people:
  assumes "state s = ''awaiting_name_people''" "role s = ''customer''"
  shows "handle_text now sender text s sys = name_people_step now sender text sys"
  using assms by (simp add: handle_text_def)

lemma handle_text_free_table:
  assumes "state s = ''awaiting_free_table_number''" "role s = ''waiter''"
  shows "handle_text now sender text s sys = free_table_step now sender text sys"
  using assms by (simp add: handle_text_def)

lemma save_user_data_to_db_id_positive:
  assumes "users_wf d"
  shows "\<exists>i. snd (save_user_data_to_db now p nm cnt d) = Some i \<and> 0 < i"
proof (cases "find (\<lambda>u. phone_number u = p) (users d)")
  case None
  then show ?thesis by (simp add: save_new)
next
  case (Some e)
  then have "e \<in> set (users d)" by (auto simp: find_Some_iff)
  with assms have "0 < u_id e" by (auto simp: users_wf_def list_all_iff)
  with Some show ?thesis by (simp add: save_existing)
qed

lemma name_people_step_rejected:
  "parse_name_people text = None \<Longrightarrow>
     name_people_step now sender text sys =
       send_message sender ''Please provide name and number in format: Name, Number (e.g., John, 5)'' sys"
  "parse_name_people text = Some (nm, n) \<Longrightarrow> n \<le> 0 \<Longrightarrow>
     name_people_step now sender text sys =
       send_message sender ''Number of people must be a positive integer. Please try again.'' sys"
  "parse_name_people text = Some (nm, n) \<Longrightarrow> 6 < n \<Longrightarrow>
     name_people_step now sender text sys =
       send_message sender
         ''We currently don't have tables for more than 6 people. Please try with a smaller group.'' sys"
  by (simp_all add: name_people_step_def)

lemma name_people_step_accepted:
  assumes "parse_name_people text = Some (nm, n)" "0 < n" "n \<le> 6" "users_wf (store sys)"
  shows "name_people_step now sender text sys =
           run_allocation now
             (set_session sender initial_session
                (send_message sender (queued_message nm n)
                   (sys\<lparr>store := fst (save_user_data_to_db now sender nm n (store sys))\<rparr>)))"
proof -
  from save_user_data_to_db_id_positive [OF assms(4), of now sender nm n]
  have "snd (save_user_data_to_db now sender nm n (store sys)) \<noteq> None \<and>
        snd (save_user_data_to_db now sender nm n (store sys)) \<noteq> Some 0" by auto
  with assms(1-3) show ?thesis
    by (simp add: name_people_step_def Let_def)
qed

subsection \<open>Lower case and stripping\<close>

lemma py_isspace_comma: "\<not> py_isspace CHR '',''"
  by (simp add: py_isspace_def)

lemma py_lower_char_not_upper: "\<not> is_upper_char (py_lower_char c)"
  by (auto simp: py_lower_char_def is_upper_char_def)

lemma py_lower_char_fixed: "\<not> is_upper_char c \<Longrightarrow> py_lower_char c = c"
  by (simp add: py_lower_char_def)

lemma py_lower_fixed: "list_all (\<lambda>c. \<not> is_upper_char c) s \<Longrightarrow> py_lower s = s"
  by (induction s) (simp_all add: py_lower_def py_lower_char_fixed)

lemma py_lower_no_upper: "list_all (\<lambda>c. \<not> is_upper_char c) (py_lower s)"
  by (simp add: py_lower_def list_all_iff py_lower_char_not_upper)

lemma set_py_strip: "set (py_strip s) \<subseteq> set s"
proof -
  have "set (py_strip s) = set (dropWhile py_isspace (rev (dropWhile py_isspace s)))"
    by (simp add: py_strip_def)
  also have "\<dots> \<subseteq> set (rev (dropWhile py_isspace s))" by (rule set_dropWhileD [THEN subsetI])
  also have "\<dots> \<subseteq> set s" using set_dropWhileD [of _ py_isspace s] by auto
  finally show ?thesis .
qed

lemma py_strip_no_upper:
  "list_all (\<lambda>c. \<not> is_upper_char c) s \<Longrightarrow> list_all (\<lambda>c. \<not> is_upper_char c) (py_strip s)"
  using set_py_strip [of s] by (auto simp: list_all_iff)

lemma py_lower_py_strip_py_lower: "py_lower (py_strip (py_lower s)) = py_strip (py_lower s)"
  by (intro py_lower_fixed py_strip_no_upper py_lower_no_upper)

lemma py_lower_char_comma: "py_lower_char c = CHR '','' \<longleftrightarrow> c = CHR '',''"
proof
  assume l: "py_lower_char c = CHR '',''"
  show "c = CHR '',''"
  proof (cases "is_upper_char c")
    case True
    then have "(of_char c :: nat) + 32 < 256"
      by (auto simp: is_upper_char_def)
    with True have "of_char (py_lower_char c) = (of_char c + 32 :: nat)"
      by (simp add: py_lower_char_def)
    with l True show ?thesis by (auto simp: is_upper_char_def)
  next
    case False
    with l show ?thesis by (simp add: py_lower_char_def)
  qed
next
  assume "c = CHR '',''"
  then show "py_lower_char c = CHR '',''" by (simp add: py_lower_char_def is_upper_char_def)
qed

lemma py_lower_comma_free: "CHR '','' \<notin> set s \<Longrightarrow> CHR '','' \<notin> set (py_lower s)"
  by (induction s) (simp_all add: py_lower_def py_lower_char_comma eq_commute [of "CHR '',''"])

lemma py_lower_around_comma: "py_lower (a @ CHR '','' # b) = py_lower a @ CHR '','' # py_lower b"
  by (simp add: py_lower_def py_lower_char_def is_upper_char_def)

lemma dropWhile_before_comma:
  "dropWhile py_isspace (x @ CHR '','' # y) = dropWhile py_isspace x @ CHR '','' # y"
  by (simp add: dropWhile_append py_isspace_comma)

lemma py_strip_around_comma:
  "py_strip (x @ CHR '','' # y) =
     dropWhile py_isspace x @ CHR '','' # rev (dropWhile py_isspace (rev y))"
proof -
  have "rev (dropWhile py_isspace x @ CHR '','' # y) = rev y @ CHR '','' # rev (dropWhile py_isspace x)"
    by simp
  then show ?thesis
    unfolding py_strip_def dropWhile_before_comma by (simp add: dropWhile_before_comma)
qed

lemma py_strip_after_lstrip: "py_strip (dropWhile py_isspace x) = py_strip x"
  by (simp add: py_strip_def dropWhile_idem)

lemma rstrip_Cons:
  "rev (dropWhile P (rev (c # y))) =
     (if \<forall>x \<in> set y. P x then (if P c then [] else [c]) else c # rev (dropWhile P (rev y)))"
  by (simp add: dropWhile_append)

lemma lstrip_rstrip_commute:
  "dropWhile P (rev (dropWhile P (rev y))) = rev (dropWhile P (rev (dropWhile P y)))"
proof (induction y)
  case Nil
  then show ?case by simp
next
  case (Cons c y)
  show ?case
  proof (cases "\<forall>x \<in> set y. P x")
    case True
    then have none: "dropWhile P y = []" by simp
    from True show ?thesis by (simp add: dropWhile_append none)
  next
    case False
    with Cons.IH show ?thesis by (auto simp: dropWhile_append)
  qed
qed

lemma py_strip_after_rstrip: "py_strip (rev (dropWhile py_isspace (rev y))) = py_strip y"
proof -
  have "py_strip (rev (dropWhile py_isspace (rev y))) =
        rev (dropWhile py_isspace (rev (dropWhile py_isspace (rev (dropWhile py_isspace (rev y))))))"
    by (simp add: py_strip_def)
  also have "\<dots> = rev (dropWhile py_isspace (rev (rev (dropWhile py_isspace (rev (dropWhile py_isspace y))))))"
    by (simp only: lstrip_rstrip_commute)
  also have "\<dots> = py_strip y"
    by (simp add: py_strip_def dropWhile_idem)
  finally show ?thesis .
qed

lemma parse_name_people_typed:
  assumes "CHR '','' \<notin> set a" "CHR '','' \<notin> set b"
  shows "parse_name_people (py_strip (py_lower (a @ CHR '','' # b))) =
           (case py_int (py_strip (py_lower b)) of
              Some n \<Rightarrow> Some (py_strip (py_lower a), n)
            | None \<Rightarrow> None)"
proof -
  let ?l = "dropWhile py_isspace (py_lower a)"
  let ?r = "rev (dropWhile py_isspace (rev (py_lower b)))"
  have stripped: "py_strip (py_lower (a @ CHR '','' # b)) = ?l @ CHR '','' # ?r"
    by (simp only: py_lower_around_comma py_strip_around_comma)
  have "CHR '','' \<notin> set ?l"
    using py_lower_comma_free [OF assms(1)] set_dropWhileD [of _ py_isspace "py_lower a"] by blast
  moreover have "CHR '','' \<notin> set ?r"
    using py_lower_comma_free [OF assms(2)] set_dropWhileD [of _ py_isspace "rev (py_lower b)"] by auto
  ultimately have "py_split CHR '','' (?l @ CHR '','' # ?r) = [?l, ?r]"
    by (rule py_split_two)
  then show ?thesis
    unfolding stripped parse_name_people_def
    by (simp add: py_strip_after_lstrip py_strip_after_rstrip split: option.split)
qed

subsection \<open>The table number of a waiter's text\<close>







lemma free_table_step_unknown:
  assumes "normalize_table_number text \<notin> set (map table_number (tables (store sys)))"
  shows "free_table_step now sender text sys =
           sys\<lparr>user_states := (user_states sys)(sender \<mapsto> initial_session),
               outbox := outbox sys @
                 [(sender, ''Could not find or update table '' @ normalize_table_number text @
                    ''. Please ensure the table number is correct (e.g., T1, T5, T10).'')]\<rparr>"
  by (simp add: free_table_step_def Let_def update_table_status_to_free_unknown [OF assms]
        send_message_def set_session_def)


section \<open>An unknown table number\<close>

lemma seeded_table_numbers:
  "map table_number (tables (init_db 0 empty_db)) =
     [''T1'', ''T2'', ''T3'', ''T4'', ''T5'', ''T6'', ''T7'', ''T8'', ''T9'', ''T10'']"
  by code_simp

lemma normalize_T99: "normalize_table_number (py_strip (py_lower ''T99'')) = ''T99''"
  by code_simp

lemma waiter_at_table_prompt_unknown:
  "normalize_table_number (py_strip (py_lower ''T99'')) \<notin>
     set (map table_number (tables (store waiter_at_table_prompt)))"
  unfolding normalize_T99 by (simp add: waiter_at_table_prompt_def seeded_table_numbers)

lemma webhook_unknown_table:
  assumes "user_states sys sender = Some s"
    and "state s = ''awaiting_free_table_number''" and "role s = ''waiter''"
    and "normalize_table_number (py_strip (py_lower body)) \<notin> set (map table_number (tables (store sys)))"
  shows "webhook now sender ''text'' body sys =
           sys\<lparr>user_states := (user_states sys)(sender \<mapsto> initial_session),
               outbox := outbox sys @
                 [(sender, ''Could not find or update table '' @
                    normalize_table_number (py_strip (py_lower body)) @
                    ''. Please ensure the table number is correct (e.g., T1, T5, T10).'')]\<rparr>"
  by (simp only: session_step [OF assms(1)] handle_text_free_table [OF assms(2,3)]
        free_table_step_unknown [OF assms(4)])

text \<open>
  Claim C3 as stated, at a concrete input: the session of a waiter in
  \<open>awaiting_free_table_number\<close> who names the unknown table \<open>T99\<close> is not left as it
  was; it is \<open>customer\<close> / \<open>initial\<close> afterwards.
\<close>

theorem unknown_table_session_unchanged_counterexample:
  "user_states waiter_at_table_prompt ''15550009'' = Some waiter_session \<and>
   state waiter_session = ''awaiting_free_table_number'' \<and>
   role waiter_session = ''waiter'' \<and>
   normalize_table_number (py_strip (py_lower ''T99'')) \<notin>
     set (map table_number (tables (store waiter_at_table_prompt))) \<and>
   user_states (webhook 5 ''15550009'' ''text'' ''T99'' waiter_at_table_prompt) ''15550009'' =
     Some \<lparr>role = ''customer'', state = ''initial'', data = []\<rparr> \<and>
   user_states (webhook 5 ''15550009'' ''text'' ''T99'' waiter_at_table_prompt) ''15550009'' \<noteq>
     Some waiter_session"
proof -
  have s: "user_states waiter_at_table_prompt ''15550009'' = Some waiter_session"
    by (simp add: waiter_at_table_prompt_def)
  have st: "state waiter_session = ''awaiting_free_table_number''"
    and ro: "role waiter_session = ''waiter''"
    by (simp_all add: waiter_session_def)
  have "user_states (webhook 5 ''15550009'' ''text'' ''T99'' waiter_at_table_prompt) ''15550009'' =
     Some initial_session"
    by (simp add: webhook_unknown_table [OF s st ro waiter_at_table_prompt_unknown])
  with s st ro waiter_at_table_prompt_unknown show ?thesis
    by (simp add: initial_session_def waiter_session_def)
qed

text \<open>
  Claim C3, as the code has it. For a session in state \<open>awaiting_free_table_number\<close> with
  role \<open>waiter\<close>, when the text normalizes to a table number for which no table exists, the
  lookup error is sent to the waiter, the session is reset to \<open>customer\<close> / \<open>initial\<close>
  (line 378 runs after both outcomes), and the store, so every table's status, is unchanged.
\<close>

theorem unknown_table_resets_session:
  "user_states sys sender = Some s \<and>
   state s = ''awaiting_free_table_number'' \<and> role s = ''waiter'' \<and>
   normalize_table_number (py_strip (py_lower body)) \<notin> set (map table_number (tables (store sys)))
   \<longrightarrow>
   outbox (webhook now sender ''text'' body sys) =
     outbox sys @
       [(sender, ''Could not find or update table '' @
          normalize_table_number (py_strip (py_lower body)) @
          ''. Please ensure the table number is correct (e.g., T1, T5, T10).'')] \<and>
   user_states (webhook now sender ''text'' body sys) =
     (user_states sys)(sender \<mapsto> \<lparr>role = ''customer'', state = ''initial'', data = []\<rparr>) \<and>
   store (webhook now sender ''text'' body sys) = store sys"
proof
  assume a: "user_states sys sender = Some s \<and>
   state s = ''awaiting_free_table_number'' \<and> role s = ''waiter'' \<and>
   normalize_table_number (py_strip (py_lower body)) \<notin> set (map table_number (tables (store sys)))"
  then have 1: "user_states sys sender = Some s"
    and 2: "state s = ''awaiting_free_table_number''" and 3: "role s = ''waiter''"
    and 4: "normalize_table_number (py_strip (py_lower body)) \<notin>
              set (map table_number (tables (store sys)))"
    by blast+
  show "outbox (webhook now sender ''text'' body sys) =
     outbox sys @
       [(sender, ''Could not find or update table '' @
          normalize_table_number (py_strip (py_lower body)) @
          ''. Please ensure the table number is correct (e.g., T1, T5, T10).'')] \<and>
   user_states (webhook now sender ''text'' body sys) =
     (user_states sys)(sender \<mapsto> \<lparr>role = ''customer'', state = ''initial'', data = []\<rparr>) \<and>
   store (webhook now sender ''text'' body sys) = store sys"
    by (simp add: webhook_unknown_table [OF 1 2 3 4] initial_session_def)
qed

theorem unknown_table_resets_session_witness:
  "user_states waiter_at_table_prompt ''15550009'' = Some waiter_session \<and>
   state waiter_session = ''awaiting_free_table_number'' \<and>
   role waiter_session = ''waiter'' \<and>
   normalize_table_number (py_strip (py_lower ''T99'')) \<notin>
     set (map table_number (tables (store waiter_at_table_prompt))) \<and>
   outbox (webhook 5 ''15550009'' ''text'' ''T99'' waiter_at_table_prompt) =
     [(''15550009'', ''Could not find or update table T99. Please ensure the table number is correct (e.g., T1, T5, T10).'')] \<and>
   store (webhook 5 ''15550009'' ''text'' ''T99'' waiter_at_table_prompt) = init_db 0 empty_db"
proof -
  have s: "user_states waiter_at_table_prompt ''15550009'' = Some waiter_session"
    by (simp add: waiter_at_table_prompt_def)
  have st: "state waiter_session = ''awaiting_free_table_number''"
    and ro: "role waiter_session = ''waiter''"
    by (simp_all add: waiter_session_def)
  have o: "outbox waiter_at_table_prompt = []" and d: "store waiter_at_table_prompt = init_db 0 empty_db"
    by (simp_all add: waiter_at_table_prompt_def)
  from s st ro waiter_at_table_prompt_unknown
    unknown_table_resets_session [of waiter_at_table_prompt "''15550009''" waiter_session "''T99''" 5]
  have "outbox (webhook 5 ''15550009'' ''text'' ''T99'' waiter_at_table_prompt) =
     outbox waiter_at_table_prompt @
       [(''15550009'', ''Could not find or update table '' @
          normalize_table_number (py_strip (py_lower ''T99'')) @
          ''. Please ensure the table number is correct (e.g., T1, T5, T10).'')]"
    and "store (webhook 5 ''15550009'' ''text'' ''T99'' waiter_at_table_prompt) =
          store waiter_at_table_prompt"
    by blast+
  with s st ro waiter_at_table_prompt_unknown show ?thesis
    by (simp add: o d normalize_T99)
qed

section \<open>Joining the queue\<close>

lemma run_allocation_parts:
  "store (run_allocation now sys) = fst (attempt_seating_allocation now (store sys))"
  "outbox (run_allocation now sys) = outbox sys @ snd (attempt_seating_allocation now (store sys))"
  "user_states (run_allocation now sys) = user_states sys"
  by (simp_all add: run_allocation_def split_beta)

lemma webhook_name_people:
  assumes "user_states sys sender = Some s"
    and "state s = ''awaiting_name_people''" and "role s = ''customer''"
  shows "webhook now sender ''text'' body sys = name_people_step now sender (py_strip (py_lower body)) sys"
  by (simp only: session_step [OF assms(1)] handle_text_name_people [OF assms(2,3)])

lemma users_wf_seeded: "users_wf (init_db 0 empty_db)"
proof -
  have "users (init_db 0 empty_db) = []" by code_simp
  then show ?thesis by (simp add: users_wf_def)
qed

lemma py_str_int_to_six:
  "map py_str_int [1, 2, 3, 4, 5, 6] = [''1'', ''2'', ''3'', ''4'', ''5'', ''6'']"
  by code_simp

lemma py_int_examples:
  "map py_int [''3'', ''+3'', ''-3'', ''03'', ''1_0'', '' 3 '', ''3.0'', ''three'', [], ''1__0'', ''_1'',
               ''1_'', ''+'', ''3 3'', [CHR 0xB3], [CHR 0x1C, CHR ''3'']] =
     [Some 3, Some 3, Some (- 3), Some 3, Some 10, Some 3, None, None, None, None, None,
      None, None, None, None, None]"
  by code_simp

lemma is_decimal_char_plain:
  "is_decimal_char c \<Longrightarrow> \<not> py_int_space c \<and> c \<noteq> CHR ''-'' \<and> c \<noteq> CHR ''+''"
  by (auto simp: is_decimal_char_def py_int_space_def)

lemma py_digits_decimal:
  "list_all is_decimal_char ds \<Longrightarrow> \<exists>n. py_digits ds acc = Some n"
  by (induction ds acc rule: py_digits.induct) simp_all

lemma py_int_decimal:
  assumes "list_all is_decimal_char ds" "ds \<noteq> []"
  shows "py_int ds = None \<longleftrightarrow> 4300 < length ds"
proof -
  from assms obtain c cs where ds: "ds = c # cs" and c: "is_decimal_char c"
    and cs: "list_all is_decimal_char cs"
    by (cases ds) auto
  have all: "filter is_decimal_char ds = ds"
    using assms(1) by (simp add: list_all_iff)
  have "hd ds \<in> set ds" "hd (rev ds) \<in> set ds"
    using assms(2) by (simp_all add: hd_rev)
  with assms(1) have "is_decimal_char (hd ds)" "is_decimal_char (hd (rev ds))"
    by (auto simp: list_all_iff)
  then have "\<not> py_int_space (hd ds)" "\<not> py_int_space (hd (rev ds))"
    using is_decimal_char_plain by blast+
  then have "dropWhile py_int_space ds = ds" "dropWhile py_int_space (rev ds) = rev ds"
    by (simp_all add: dropWhile_eq_self_iff)
  then have "rev (dropWhile py_int_space (rev (dropWhile py_int_space ds))) = c # cs"
    by (simp add: ds)
  moreover obtain n where "py_digits cs (digit_val c) = Some n"
    using py_digits_decimal [OF cs] by blast
  ultimately show ?thesis
    using c is_decimal_char_plain [OF c] all
    by (simp add: py_int_def py_unsigned_def ds)
qed

text \<open>
  Claim C7. The largest seeded capacity is 6. For a session in state
  \<open>awaiting_name_people\<close> with role \<open>customer\<close>, on a store that meets its schema: the
  lower-cased and stripped text is accepted exactly when it splits at one comma into a name
  and a count that \<open>int\<close> reads; when moreover \<open>0 < count \<le> 6\<close> the party is saved under
  the sender's number, the confirmation \<open>Got it! ... You are in the queue ...\<close> is sent
  with the name and the count in it, the session is reset to \<open>customer\<close> / \<open>initial\<close> and
  the allocation runs; on a parse failure, a count \<open>\<le> 0\<close> or a count \<open>> 6\<close> the matching
  validation message is sent and sessions and store are unchanged. \<open>int\<close> reads a sign,
  leading zeros and single underscores between digits, and refuses words, fractions and
  more than 4300 digits; the counts 1 to 6 are printed as one digit.
\<close>

theorem name_people_validation:
  "Max (set (map snd initial_tables_config)) = 6 \<and>
   map py_str_int [1, 2, 3, 4, 5, 6] = [''1'', ''2'', ''3'', ''4'', ''5'', ''6''] \<and>
   map py_int [''3'', ''+3'', ''-3'', ''03'', ''1_0'', '' 3 '', ''3.0'', ''three'', [], ''1__0'', ''_1'',
               ''1_'', ''+'', ''3 3'', [CHR 0xB3], [CHR 0x1C, CHR ''3'']] =
     [Some 3, Some 3, Some (- 3), Some 3, Some 10, Some 3, None, None, None, None, None,
      None, None, None, None, None] \<and>
   (list_all is_decimal_char ds \<and> ds \<noteq> [] \<longrightarrow> (py_int ds = None \<longleftrightarrow> 4300 < length ds)) \<and>
   (user_states sys sender = Some s \<and>
   state s = ''awaiting_name_people'' \<and> role s = ''customer'' \<and> users_wf (store sys)
   \<longrightarrow>
   (parse_name_people (py_strip (py_lower body)) = Some (nm, n) \<longleftrightarrow>
      (\<exists>a b. py_strip (py_lower body) = a @ CHR '','' # b \<and>
             CHR '','' \<notin> set a \<and> CHR '','' \<notin> set b \<and>
             nm = py_strip a \<and> py_int (py_strip b) = Some n)) \<and>
   (parse_name_people (py_strip (py_lower body)) = Some (nm, n) \<and> 0 < n \<and> n \<le> 6 \<longrightarrow>
      store (webhook now sender ''text'' body sys) =
        fst (attempt_seating_allocation now
               (fst (save_user_data_to_db now sender nm n (store sys)))) \<and>
      entries_for sender (fst (save_user_data_to_db now sender nm n (store sys))) =
        [\<lparr>u_id = the (snd (save_user_data_to_db now sender nm n (store sys))),
          phone_number = sender, name = nm, people_count = n, u_timestamp = now\<rparr>] \<and>
      outbox (webhook now sender ''text'' body sys) =
        outbox sys @
          (sender, ''Got it! '' @ nm @ '' with '' @ py_str_int n @
             '' people. You are in the queue. We will notify you when a table is ready.'') #
          snd (attempt_seating_allocation now
                 (fst (save_user_data_to_db now sender nm n (store sys)))) \<and>
      user_states (webhook now sender ''text'' body sys) =
        (user_states sys)(sender \<mapsto> \<lparr>role = ''customer'', state = ''initial'', data = []\<rparr>)) \<and>
   (parse_name_people (py_strip (py_lower body)) = None \<longrightarrow>
      webhook now sender ''text'' body sys =
        sys\<lparr>outbox := outbox sys @
          [(sender, ''Please provide name and number in format: Name, Number (e.g., John, 5)'')]\<rparr>) \<and>
   (parse_name_people (py_strip (py_lower body)) = Some (nm, n) \<and> n \<le> 0 \<longrightarrow>
      webhook now sender ''text'' body sys =
        sys\<lparr>outbox := outbox sys @
          [(sender, ''Number of people must be a positive integer. Please try again.'')]\<rparr>) \<and>
   (parse_name_people (py_strip (py_lower body)) = Some (nm, n) \<and> 6 < n \<longrightarrow>
      webhook now sender ''text'' body sys =
        sys\<lparr>outbox := outbox sys @
          [(sender, ''We currently don't have tables for more than 6 people. Please try with a smaller group.'')]\<rparr>))"
  (is "_ \<and> _ \<and> _ \<and> ?limit \<and> ?steps")
proof (intro conjI)
  show "Max (set (map snd initial_tables_config)) = 6"
    by (simp add: initial_tables_config_def)
  show "map py_str_int [1, 2, 3, 4, 5, 6] = [''1'', ''2'', ''3'', ''4'', ''5'', ''6'']"
    by (rule py_str_int_to_six)
  show "map py_int [''3'', ''+3'', ''-3'', ''03'', ''1_0'', '' 3 '', ''3.0'', ''three'', [], ''1__0'', ''_1'',
               ''1_'', ''+'', ''3 3'', [CHR 0xB3], [CHR 0x1C, CHR ''3'']] =
     [Some 3, Some 3, Some (- 3), Some 3, Some 10, Some 3, None, None, None, None, None,
      None, None, None, None, None]"
    by (rule py_int_examples)
  show ?limit
    using py_int_decimal [of ds] by blast
  show ?steps
  proof (intro impI)
  assume a: "user_states sys sender = Some s \<and>
   state s = ''awaiting_name_people'' \<and> role s = ''customer'' \<and> users_wf (store sys)"
  then have wf: "users_wf (store sys)" by blast
  from a have step: "webhook now sender ''text'' body sys =
      name_people_step now sender (py_strip (py_lower body)) sys"
    by (intro webhook_name_people [of sys sender s]) blast+
  show "(parse_name_people (py_strip (py_lower body)) = Some (nm, n) \<longleftrightarrow>
      (\<exists>a b. py_strip (py_lower body) = a @ CHR '','' # b \<and>
             CHR '','' \<notin> set a \<and> CHR '','' \<notin> set b \<and>
             nm = py_strip a \<and> py_int (py_strip b) = Some n)) \<and>
   (parse_name_people (py_strip (py_lower body)) = Some (nm, n) \<and> 0 < n \<and> n \<le> 6 \<longrightarrow>
      store (webhook now sender ''text'' body sys) =
        fst (attempt_seating_allocation now
               (fst (save_user_data_to_db now sender nm n (store sys)))) \<and>
      entries_for sender (fst (save_user_data_to_db now sender nm n (store sys))) =
        [\<lparr>u_id = the (snd (save_user_data_to_db now sender nm n (store sys))),
          phone_number = sender, name = nm, people_count = n, u_timestamp = now\<rparr>] \<and>
      outbox (webhook now sender ''text'' body sys) =
        outbox sys @
          (sender, ''Got it! '' @ nm @ '' with '' @ py_str_int n @
             '' people. You are in the queue. We will notify you when a table is ready.'') #
          snd (attempt_seating_allocation now
                 (fst (save_user_data_to_db now sender nm n (store sys)))) \<and>
      user_states (webhook now sender ''text'' body sys) =
        (user_states sys)(sender \<mapsto> \<lparr>role = ''customer'', state = ''initial'', data = []\<rparr>)) \<and>
   (parse_name_people (py_strip (py_lower body)) = None \<longrightarrow>
      webhook now sender ''text'' body sys =
        sys\<lparr>outbox := outbox sys @
          [(sender, ''Please provide name and number in format: Name, Number (e.g., John, 5)'')]\<rparr>) \<and>
   (parse_name_people (py_strip (py_lower body)) = Some (nm, n) \<and> n \<le> 0 \<longrightarrow>
      webhook now sender ''text'' body sys =
        sys\<lparr>outbox := outbox sys @
          [(sender, ''Number of people must be a positive integer. Please try again.'')]\<rparr>) \<and>
   (parse_name_people (py_strip (py_lower body)) = Some (nm, n) \<and> 6 < n \<longrightarrow>
      webhook now sender ''text'' body sys =
        sys\<lparr>outbox := outbox sys @
          [(sender, ''We currently don't have tables for more than 6 people. Please try with a smaller group.'')]\<rparr>)"
  proof (intro conjI impI)
    show "parse_name_people (py_strip (py_lower body)) = Some (nm, n) \<longleftrightarrow>
      (\<exists>a b. py_strip (py_lower body) = a @ CHR '','' # b \<and>
             CHR '','' \<notin> set a \<and> CHR '','' \<notin> set b \<and>
             nm = py_strip a \<and> py_int (py_strip b) = Some n)"
      by (rule parse_name_people_iff)
  next
    assume ok: "parse_name_people (py_strip (py_lower body)) = Some (nm, n) \<and> 0 < n \<and> n \<le> 6"
    then have acc: "webhook now sender ''text'' body sys =
           run_allocation now
             (set_session sender initial_session
                (send_message sender (queued_message nm n)
                   (sys\<lparr>store := fst (save_user_data_to_db now sender nm n (store sys))\<rparr>)))"
      unfolding step by (intro name_people_step_accepted [OF _ _ _ wf]) blast+
    show "store (webhook now sender ''text'' body sys) =
        fst (attempt_seating_allocation now
               (fst (save_user_data_to_db now sender nm n (store sys))))"
      by (simp add: acc run_allocation_parts set_session_def send_message_def)
    show "entries_for sender (fst (save_user_data_to_db now sender nm n (store sys))) =
        [\<lparr>u_id = the (snd (save_user_data_to_db now sender nm n (store sys))),
          phone_number = sender, name = nm, people_count = n, u_timestamp = now\<rparr>]"
      by (rule entries_for_after_save [OF wf])
    show "outbox (webhook now sender ''text'' body sys) =
        outbox sys @
          (sender, ''Got it! '' @ nm @ '' with '' @ py_str_int n @
             '' people. You are in the queue. We will notify you when a table is ready.'') #
          snd (attempt_seating_allocation now
                 (fst (save_user_data_to_db now sender nm n (store sys))))"
      by (simp add: acc run_allocation_parts set_session_def send_message_def queued_message_def)
    show "user_states (webhook now sender ''text'' body sys) =
        (user_states sys)(sender \<mapsto> \<lparr>role = ''customer'', state = ''initial'', data = []\<rparr>)"
      by (simp add: acc run_allocation_parts set_session_def send_message_def initial_session_def)
  next
    assume "parse_name_people (py_strip (py_lower body)) = None"
    then show "webhook now sender ''text'' body sys =
        sys\<lparr>outbox := outbox sys @
          [(sender, ''Please provide name and number in format: Name, Number (e.g., John, 5)'')]\<rparr>"
      by (simp add: step name_people_step_rejected(1) send_message_def)
  next
    assume "parse_name_people (py_strip (py_lower body)) = Some (nm, n) \<and> n \<le> 0"
    then show "webhook now sender ''text'' body sys =
        sys\<lparr>outbox := outbox sys @
          [(sender, ''Number of people must be a positive integer. Please try again.'')]\<rparr>"
      by (simp add: step name_people_step_rejected(2) [of _ nm n] send_message_def)
  next
    assume "parse_name_people (py_strip (py_lower body)) = Some (nm, n) \<and> 6 < n"
    then show "webhook now sender ''text'' body sys =
        sys\<lparr>outbox := outbox sys @
          [(sender, ''We currently don't have tables for more than 6 people. Please try with a smaller group.'')]\<rparr>"
      by (simp add: step name_people_step_rejected(3) [of _ nm n] send_message_def)
  qed
qed
qed

lemma parse_alice_3: "parse_name_people (py_strip (py_lower ''Alice, 3'')) = Some (''alice'', 3)"
  by code_simp

lemma parse_ann_3_nbsp:
  "parse_name_people (py_strip (py_lower (''Ann, 3'' @ [CHR 0xA0]))) = Some (''ann'', 3)"
  by code_simp

lemma parse_alice_7: "parse_name_people (py_strip (py_lower ''Alice, 7'')) = Some (''alice'', 7)"
  by code_simp

lemma parse_alice_0: "parse_name_people (py_strip (py_lower ''Alice, 0'')) = Some (''alice'', 0)"
  by code_simp

lemma parse_alice_three: "parse_name_people (py_strip (py_lower ''Alice, three'')) = None"
  by code_simp

lemma seeded_first_party_seated:
  "snd (attempt_seating_allocation 5
          (fst (save_user_data_to_db 5 ''15550001'' ''alice'' 3 (init_db 0 empty_db)))) =
     [(''15550001'', ''Great news, alice! Your table T5 is ready. Please proceed to your table.'')]"
  "snd (attempt_seating_allocation 5
          (fst (save_user_data_to_db 5 ''15550001'' ''ann'' 3 (init_db 0 empty_db)))) =
     [(''15550001'', ''Great news, ann! Your table T5 is ready. Please proceed to your table.'')]"
  by code_simp+

theorem name_people_validation_witness:
  "user_states customer_at_name_prompt ''15550001'' = Some customer_session \<and>
   state customer_session = ''awaiting_name_people'' \<and> role customer_session = ''customer'' \<and>
   users_wf (store customer_at_name_prompt) \<and>
   parse_name_people (py_strip (py_lower ''Alice, 3'')) = Some (''alice'', 3) \<and>
   user_states (webhook 5 ''15550001'' ''text'' ''Alice, 3'' customer_at_name_prompt) ''15550001'' =
     Some \<lparr>role = ''customer'', state = ''initial'', data = []\<rparr> \<and>
   outbox (webhook 5 ''15550001'' ''text'' ''Alice, 3'' customer_at_name_prompt) =
     [(''15550001'', ''Got it! alice with 3 people. You are in the queue. We will notify you when a table is ready.''),
      (''15550001'', ''Great news, alice! Your table T5 is ready. Please proceed to your table.'')] \<and>
   parse_name_people (py_strip (py_lower (''Ann, 3'' @ [CHR 0xA0]))) = Some (''ann'', 3) \<and>
   outbox (webhook 5 ''15550001'' ''text'' (''Ann, 3'' @ [CHR 0xA0]) customer_at_name_prompt) =
     [(''15550001'', ''Got it! ann with 3 people. You are in the queue. We will notify you when a table is ready.''),
      (''15550001'', ''Great news, ann! Your table T5 is ready. Please proceed to your table.'')] \<and>
   parse_name_people (py_strip (py_lower ''Alice, three'')) = None \<and>
   webhook 5 ''15550001'' ''text'' ''Alice, three'' customer_at_name_prompt =
     customer_at_name_prompt\<lparr>outbox := outbox customer_at_name_prompt @
       [(''15550001'', ''Please provide name and number in format: Name, Number (e.g., John, 5)'')]\<rparr> \<and>
   parse_name_people (py_strip (py_lower ''Alice, 0'')) = Some (''alice'', 0) \<and>
   webhook 5 ''15550001'' ''text'' ''Alice, 0'' customer_at_name_prompt =
     customer_at_name_prompt\<lparr>outbox := outbox customer_at_name_prompt @
       [(''15550001'', ''Number of people must be a positive integer. Please try again.'')]\<rparr> \<and>
   parse_name_people (py_strip (py_lower ''Alice, 7'')) = Some (''alice'', 7) \<and>
   webhook 5 ''15550001'' ''text'' ''Alice, 7'' customer_at_name_prompt =
     customer_at_name_prompt\<lparr>outbox := outbox customer_at_name_prompt @
       [(''15550001'', ''We currently don't have tables for more than 6 people. Please try with a smaller group.'')]\<rparr> \<and>
   list_all is_decimal_char ''12'' \<and> ''12'' \<noteq> [] \<and> py_int ''12'' \<noteq> None"
proof -
  have first_part: "user_states customer_at_name_prompt ''15550001'' = Some customer_session \<and>
   state customer_session = ''awaiting_name_people'' \<and> role customer_session = ''customer'' \<and>
   users_wf (store customer_at_name_prompt) \<and>
   parse_name_people (py_strip (py_lower ''Alice, 3'')) = Some (''alice'', 3) \<and>
   user_states (webhook 5 ''15550001'' ''text'' ''Alice, 3'' customer_at_name_prompt) ''15550001'' =
     Some \<lparr>role = ''customer'', state = ''initial'', data = []\<rparr> \<and>
   outbox (webhook 5 ''15550001'' ''text'' ''Alice, 3'' customer_at_name_prompt) =
     [(''15550001'', ''Got it! alice with 3 people. You are in the queue. We will notify you when a table is ready.''),
      (''15550001'', ''Great news, alice! Your table T5 is ready. Please proceed to your table.'')] \<and>
   parse_name_people (py_strip (py_lower (''Ann, 3'' @ [CHR 0xA0]))) = Some (''ann'', 3) \<and>
   outbox (webhook 5 ''15550001'' ''text'' (''Ann, 3'' @ [CHR 0xA0]) customer_at_name_prompt) =
     [(''15550001'', ''Got it! ann with 3 people. You are in the queue. We will notify you when a table is ready.''),
      (''15550001'', ''Great news, ann! Your table T5 is ready. Please proceed to your table.'')] \<and>
   parse_name_people (py_strip (py_lower ''Alice, three'')) = None \<and>
   webhook 5 ''15550001'' ''text'' ''Alice, three'' customer_at_name_prompt =
     customer_at_name_prompt\<lparr>outbox := outbox customer_at_name_prompt @
       [(''15550001'', ''Please provide name and number in format: Name, Number (e.g., John, 5)'')]\<rparr> \<and>
   parse_name_people (py_strip (py_lower ''Alice, 0'')) = Some (''alice'', 0) \<and>
   webhook 5 ''15550001'' ''text'' ''Alice, 0'' customer_at_name_prompt =
     customer_at_name_prompt\<lparr>outbox := outbox customer_at_name_prompt @
       [(''15550001'', ''Number of people must be a positive integer. Please try again.'')]\<rparr> \<and>
   parse_name_people (py_strip (py_lower ''Alice, 7'')) = Some (''alice'', 7) \<and>
   webhook 5 ''15550001'' ''text'' ''Alice, 7'' customer_at_name_prompt =
     customer_at_name_prompt\<lparr>outbox := outbox customer_at_name_prompt @
       [(''15550001'', ''We currently don't have tables for more than 6 people. Please try with a smaller group.'')]\<rparr>"
  proof -
    have s: "user_states customer_at_name_prompt ''15550001'' = Some customer_session"
      by (simp add: customer_at_name_prompt_def)
    have st: "state customer_session = ''awaiting_name_people''"
      and ro: "role customer_session = ''customer''"
      by (simp_all add: customer_session_def)
    have wf: "users_wf (store customer_at_name_prompt)"
      by (simp add: customer_at_name_prompt_def users_wf_seeded)
    have d: "store customer_at_name_prompt = init_db 0 empty_db"
      and o: "outbox customer_at_name_prompt = []"
      by (simp_all add: customer_at_name_prompt_def)
    have three_text: "py_str_int 3 = ''3''" by code_simp
    have pre: "user_states customer_at_name_prompt ''15550001'' = Some customer_session \<and>
       state customer_session = ''awaiting_name_people'' \<and> role customer_session = ''customer'' \<and>
       users_wf (store customer_at_name_prompt)"
      using s st ro wf by blast
    have three: "(3::int) > 0 \<and> (3::int) \<le> 6" and zero: "(0::int) \<le> 0" and seven: "(6::int) < 7"
      by simp_all
    from name_people_validation [where sys = customer_at_name_prompt and sender = "''15550001''"
        and s = customer_session and body = "''Alice, 3''" and nm = "''alice''" and n = 3 and now = 5] pre parse_alice_3 three
    have r3: "user_states (webhook 5 ''15550001'' ''text'' ''Alice, 3'' customer_at_name_prompt) =
       (user_states customer_at_name_prompt)
         (''15550001'' \<mapsto> \<lparr>role = ''customer'', state = ''initial'', data = []\<rparr>)"
      and o3: "outbox (webhook 5 ''15550001'' ''text'' ''Alice, 3'' customer_at_name_prompt) =
          outbox customer_at_name_prompt @
            (''15550001'', ''Got it! '' @ ''alice'' @ '' with '' @ py_str_int 3 @
               '' people. You are in the queue. We will notify you when a table is ready.'') #
            snd (attempt_seating_allocation 5
                   (fst (save_user_data_to_db 5 ''15550001'' ''alice'' 3 (store customer_at_name_prompt))))"
      by blast+
    from name_people_validation [where sys = customer_at_name_prompt and sender = "''15550001''"
        and s = customer_session and body = "''Ann, 3'' @ [CHR 0xA0]" and nm = "''ann''" and n = 3 and now = 5] pre parse_ann_3_nbsp three
    have on: "outbox (webhook 5 ''15550001'' ''text'' (''Ann, 3'' @ [CHR 0xA0]) customer_at_name_prompt) =
          outbox customer_at_name_prompt @
            (''15550001'', ''Got it! '' @ ''ann'' @ '' with '' @ py_str_int 3 @
               '' people. You are in the queue. We will notify you when a table is ready.'') #
            snd (attempt_seating_allocation 5
                   (fst (save_user_data_to_db 5 ''15550001'' ''ann'' 3 (store customer_at_name_prompt))))"
      by blast
    from name_people_validation [where sys = customer_at_name_prompt and sender = "''15550001''"
        and s = customer_session and body = "''Alice, three''" and nm = "''alice''" and n = 3 and now = 5] pre parse_alice_three
    have rt: "webhook 5 ''15550001'' ''text'' ''Alice, three'' customer_at_name_prompt =
       customer_at_name_prompt\<lparr>outbox := outbox customer_at_name_prompt @
         [(''15550001'', ''Please provide name and number in format: Name, Number (e.g., John, 5)'')]\<rparr>"
      by blast
    from name_people_validation [where sys = customer_at_name_prompt and sender = "''15550001''"
        and s = customer_session and body = "''Alice, 0''" and nm = "''alice''" and n = 0 and now = 5] pre parse_alice_0 zero
    have r0: "webhook 5 ''15550001'' ''text'' ''Alice, 0'' customer_at_name_prompt =
       customer_at_name_prompt\<lparr>outbox := outbox customer_at_name_prompt @
         [(''15550001'', ''Number of people must be a positive integer. Please try again.'')]\<rparr>"
      by blast
    from name_people_validation [where sys = customer_at_name_prompt and sender = "''15550001''"
        and s = customer_session and body = "''Alice, 7''" and nm = "''alice''" and n = 7 and now = 5] pre parse_alice_7 seven
    have r7: "webhook 5 ''15550001'' ''text'' ''Alice, 7'' customer_at_name_prompt =
       customer_at_name_prompt\<lparr>outbox := outbox customer_at_name_prompt @
         [(''15550001'', ''We currently don't have tables for more than 6 people. Please try with a smaller group.'')]\<rparr>"
      by blast
    from r3 have r3': "user_states (webhook 5 ''15550001'' ''text'' ''Alice, 3'' customer_at_name_prompt) ''15550001'' =
       Some \<lparr>role = ''customer'', state = ''initial'', data = []\<rparr>" by simp
    have o3': "outbox (webhook 5 ''15550001'' ''text'' ''Alice, 3'' customer_at_name_prompt) =
       [(''15550001'', ''Got it! alice with 3 people. You are in the queue. We will notify you when a table is ready.''),
        (''15550001'', ''Great news, alice! Your table T5 is ready. Please proceed to your table.'')]"
      unfolding o3 d o three_text seeded_first_party_seated by simp
    have on': "outbox (webhook 5 ''15550001'' ''text'' (''Ann, 3'' @ [CHR 0xA0]) customer_at_name_prompt) =
       [(''15550001'', ''Got it! ann with 3 people. You are in the queue. We will notify you when a table is ready.''),
        (''15550001'', ''Great news, ann! Your table T5 is ready. Please proceed to your table.'')]"
      unfolding on d o three_text seeded_first_party_seated by simp
    from s st ro wf parse_alice_3 r3' o3' parse_ann_3_nbsp on' parse_alice_three rt parse_alice_0 r0
      parse_alice_7 r7
    show ?thesis by blast
  qed
  have second_part: "list_all is_decimal_char ''12'' \<and> ''12'' \<noteq> [] \<and> py_int ''12'' \<noteq> None"
  proof -
    have dg: "list_all is_decimal_char ''12''" by code_simp
    have ne: "''12'' \<noteq> []" by simp
    have short: "\<not> 4300 < length ''12''" by simp
    from dg ne short name_people_validation [where ds = "''12''"]
    show ?thesis by blast
  qed
  from first_part second_part show ?thesis by blast
qed

section \<open>Naming the table to free\<close>














section \<open>Letter case of the inbound text\<close>

lemma py_strip_idem: "py_strip (py_strip s) = py_strip s"
proof -
  have "py_strip (rev (dropWhile py_isspace (rev (dropWhile py_isspace s)))) = py_strip s"
    by (simp only: py_strip_after_rstrip py_strip_after_lstrip)
  then show ?thesis by (simp only: py_strip_def [of s])
qed

lemma normalized_text_fixed: "py_strip (py_lower (py_strip (py_lower body))) = py_strip (py_lower body)"
  by (simp only: py_lower_py_strip_py_lower py_strip_idem)

lemma webhook_text_only:
  "webhook now sender ''text'' body sys = webhook now sender ''text'' (py_strip (py_lower body)) sys"
  by (simp add: webhook_def normalized_text_fixed)

lemma py_strip_triggers:
  "py_strip ''hi'' = ''hi''" "py_strip ''waiter'' = ''waiter''" "py_strip ''waiter123'' = ''waiter123''"
  by code_simp+

lemma webhook_new_sender:
  assumes "user_states sys sender = None"
  shows "webhook now sender ''text'' body sys =
           handle_text now sender (py_strip (py_lower body)) initial_session
             (set_session sender initial_session sys)"
  using assms by (simp add: webhook_def)

lemma handle_text_hi:
  assumes "state s = ''initial''"
  shows "handle_text now sender ''hi'' s sys =
           set_session sender (s\<lparr>state := ''awaiting_name_people'', role := ''customer''\<rparr>)
             (send_message sender
                ''Enter your name and how many people are there (e.g., John, 5)'' sys)"
  using assms by (simp add: handle_text_def)

lemma handle_text_waiter:
  assumes "state s = ''initial''"
  shows "handle_text now sender ''waiter'' s sys =
           set_session sender (s\<lparr>state := ''awaiting_waiter_password'', role := ''waiter''\<rparr>)
             (send_message sender ''Please enter the waiter password.'' sys)"
  using assms by (simp add: handle_text_def)

lemma handle_text_password:
  assumes "state s = ''awaiting_waiter_password''" "role s = ''waiter''"
  shows "handle_text now sender ''waiter123'' s sys =
           set_session sender (s\<lparr>state := ''awaiting_free_table_number''\<rparr>)
             (send_message sender
                ''Waiter authenticated. Please enter the table number that is now free (e.g., T4 or just 4).''
                sys)"
  using assms by (simp add: handle_text_def)

text \<open>
  Claim C10. The handler sees a text body only through its lower-cased and stripped form.
  So \<open>hi\<close> and \<open>waiter\<close> in any letter case, with any whitespace around, start the
  customer and the waiter flow, for a new sender and for a session in \<open>initial\<close>, and
  the waiter password is accepted in any letter case. The name saved for an enqueued party
  is the lower-cased and stripped form of what was typed before the comma, and holds no
  upper-case letter. Lower-casing changes \<open>A\<close> to \<open>Z\<close> and the capitals from 192 to 222
  and nothing else, keeps the length, and changes nothing when done again.
\<close>

theorem inbound_text_lowercased:
  "webhook now sender ''text'' body sys =
     webhook now sender ''text'' (py_strip (py_lower body)) sys \<and>
   (user_states sys sender = None \<and> py_strip (py_lower body) = ''hi'' \<longrightarrow>
      user_states (webhook now sender ''text'' body sys) sender =
        Some \<lparr>role = ''customer'', state = ''awaiting_name_people'', data = []\<rparr>) \<and>
   (user_states sys sender = Some s \<and> state s = ''initial'' \<and> py_strip (py_lower body) = ''hi'' \<longrightarrow>
      user_states (webhook now sender ''text'' body sys) sender =
        Some (s\<lparr>state := ''awaiting_name_people'', role := ''customer''\<rparr>) \<and>
      outbox (webhook now sender ''text'' body sys) =
        outbox sys @ [(sender, ''Enter your name and how many people are there (e.g., John, 5)'')]) \<and>
   (user_states sys sender = None \<and> py_strip (py_lower body) = ''waiter'' \<longrightarrow>
      user_states (webhook now sender ''text'' body sys) sender =
        Some \<lparr>role = ''waiter'', state = ''awaiting_waiter_password'', data = []\<rparr>) \<and>
   (user_states sys sender = Some s \<and> state s = ''initial'' \<and> py_strip (py_lower body) = ''waiter'' \<longrightarrow>
      user_states (webhook now sender ''text'' body sys) sender =
        Some (s\<lparr>state := ''awaiting_waiter_password'', role := ''waiter''\<rparr>) \<and>
      outbox (webhook now sender ''text'' body sys) =
        outbox sys @ [(sender, ''Please enter the waiter password.'')]) \<and>
   (user_states sys sender = Some s \<and> state s = ''awaiting_waiter_password'' \<and>
    role s = ''waiter'' \<and> py_strip (py_lower body) = ''waiter123'' \<longrightarrow>
      user_states (webhook now sender ''text'' body sys) sender =
        Some (s\<lparr>state := ''awaiting_free_table_number''\<rparr>) \<and>
      outbox (webhook now sender ''text'' body sys) =
        outbox sys @
          [(sender, ''Waiter authenticated. Please enter the table number that is now free (e.g., T4 or just 4).'')]) \<and>
   (user_states sys sender = Some s \<and> state s = ''awaiting_name_people'' \<and>
    role s = ''customer'' \<and> users_wf (store sys) \<and>
    CHR '','' \<notin> set typed_name \<and> CHR '','' \<notin> set typed_count \<and>
    py_int (py_strip (py_lower typed_count)) = Some n \<and> 0 < n \<and> n \<le> 6 \<longrightarrow>
      store (webhook now sender ''text'' (typed_name @ CHR '','' # typed_count) sys) =
        fst (attempt_seating_allocation now
               (fst (save_user_data_to_db now sender (py_strip (py_lower typed_name)) n (store sys)))) \<and>
      entries_for sender
          (fst (save_user_data_to_db now sender (py_strip (py_lower typed_name)) n (store sys))) =
        [\<lparr>u_id = the (snd (save_user_data_to_db now sender (py_strip (py_lower typed_name)) n
                              (store sys))),
          phone_number = sender, name = py_strip (py_lower typed_name), people_count = n,
          u_timestamp = now\<rparr>] \<and>
      py_lower (py_strip (py_lower typed_name)) = py_strip (py_lower typed_name) \<and>
      list_all (\<lambda>c. \<not> is_upper_char c) (py_strip (py_lower typed_name))) \<and>
   py_lower ''ABCDEFGHIJKLMNOPQRSTUVWXYZ abc 0123456789,_'' =
     ''abcdefghijklmnopqrstuvwxyz abc 0123456789,_'' \<and>
   py_lower [CHR 0xC0, CHR 0xC9, CHR 0xD6, CHR 0xD7, CHR 0xD8, CHR 0xDE, CHR 0xDF, CHR 0xE9, CHR 0xFF] =
     [CHR 0xE0, CHR 0xE9, CHR 0xF6, CHR 0xD7, CHR 0xF8, CHR 0xFE, CHR 0xDF, CHR 0xE9, CHR 0xFF] \<and>
   map (\<lambda>b. py_strip (py_lower b))
     [''hi'', ''Hi'', ''HI'', '' hI'' @ [CHR 0xA0], ''WAITER'', [CHR 0x85] @ ''Waiter '', ''Waiter123'',
      ''WAITER123'', ''h i''] =
     [''hi'', ''hi'', ''hi'', ''hi'', ''waiter'', ''waiter'', ''waiter123'', ''waiter123'', ''h i''] \<and>
   py_lower (py_lower body) = py_lower body \<and>
   length (py_lower body) = length body"
proof (intro conjI impI)
  show "webhook now sender ''text'' body sys =
     webhook now sender ''text'' (py_strip (py_lower body)) sys"
    by (rule webhook_text_only)
next
  assume "user_states sys sender = None \<and> py_strip (py_lower body) = ''hi''"
  then show "user_states (webhook now sender ''text'' body sys) sender =
        Some \<lparr>role = ''customer'', state = ''awaiting_name_people'', data = []\<rparr>"
    by (simp add: webhook_new_sender py_strip_triggers handle_text_hi initial_session_def
          set_session_def send_message_def)
next
  assume a: "user_states sys sender = Some s \<and> state s = ''initial'' \<and> py_strip (py_lower body) = ''hi''"
  then have w: "webhook now sender ''text'' body sys =
      set_session sender (s\<lparr>state := ''awaiting_name_people'', role := ''customer''\<rparr>)
             (send_message sender
                ''Enter your name and how many people are there (e.g., John, 5)'' sys)"
    by (simp add: session_step py_strip_triggers handle_text_hi)
  show "user_states (webhook now sender ''text'' body sys) sender =
        Some (s\<lparr>state := ''awaiting_name_people'', role := ''customer''\<rparr>)"
    by (simp add: w set_session_def send_message_def)
  show "outbox (webhook now sender ''text'' body sys) =
        outbox sys @ [(sender, ''Enter your name and how many people are there (e.g., John, 5)'')]"
    by (simp add: w set_session_def send_message_def)
next
  assume "user_states sys sender = None \<and> py_strip (py_lower body) = ''waiter''"
  then show "user_states (webhook now sender ''text'' body sys) sender =
        Some \<lparr>role = ''waiter'', state = ''awaiting_waiter_password'', data = []\<rparr>"
    by (simp add: webhook_new_sender py_strip_triggers handle_text_waiter initial_session_def
          set_session_def send_message_def)
next
  assume a: "user_states sys sender = Some s \<and> state s = ''initial'' \<and> py_strip (py_lower body) = ''waiter''"
  then have w: "webhook now sender ''text'' body sys =
      set_session sender (s\<lparr>state := ''awaiting_waiter_password'', role := ''waiter''\<rparr>)
             (send_message sender ''Please enter the waiter password.'' sys)"
    by (simp add: session_step py_strip_triggers handle_text_waiter)
  show "user_states (webhook now sender ''text'' body sys) sender =
        Some (s\<lparr>state := ''awaiting_waiter_password'', role := ''waiter''\<rparr>)"
    by (simp add: w set_session_def send_message_def)
  show "outbox (webhook now sender ''text'' body sys) =
        outbox sys @ [(sender, ''Please enter the waiter password.'')]"
    by (simp add: w set_session_def send_message_def)
next
  assume a: "user_states sys sender = Some s \<and> state s = ''awaiting_waiter_password'' \<and>
    role s = ''waiter'' \<and> py_strip (py_lower body) = ''waiter123''"
  then have w: "webhook now sender ''text'' body sys =
      set_session sender (s\<lparr>state := ''awaiting_free_table_number''\<rparr>)
             (send_message sender
                ''Waiter authenticated. Please enter the table number that is now free (e.g., T4 or just 4).''
                sys)"
    by (simp add: session_step py_strip_triggers handle_text_password)
  show "user_states (webhook now sender ''text'' body sys) sender =
        Some (s\<lparr>state := ''awaiting_free_table_number''\<rparr>)"
    by (simp add: w set_session_def send_message_def)
  show "outbox (webhook now sender ''text'' body sys) =
        outbox sys @
          [(sender, ''Waiter authenticated. Please enter the table number that is now free (e.g., T4 or just 4).'')]"
    by (simp add: w set_session_def send_message_def)
next
  assume a: "user_states sys sender = Some s \<and> state s = ''awaiting_name_people'' \<and>
    role s = ''customer'' \<and> users_wf (store sys) \<and>
    CHR '','' \<notin> set typed_name \<and> CHR '','' \<notin> set typed_count \<and>
    py_int (py_strip (py_lower typed_count)) = Some n \<and> 0 < n \<and> n \<le> 6"
  then have 1: "user_states sys sender = Some s" and 2: "state s = ''awaiting_name_people''"
    and 3: "role s = ''customer''" and wf: "users_wf (store sys)"
    and c1: "CHR '','' \<notin> set typed_name" and c2: "CHR '','' \<notin> set typed_count"
    and cnt: "py_int (py_strip (py_lower typed_count)) = Some n" and pos: "0 < n" and le: "n \<le> 6"
    by blast+
  have p: "parse_name_people (py_strip (py_lower (typed_name @ CHR '','' # typed_count))) =
      Some (py_strip (py_lower typed_name), n)"
    by (simp add: parse_name_people_typed [OF c1 c2] cnt)
  have acc: "webhook now sender ''text'' (typed_name @ CHR '','' # typed_count) sys =
           run_allocation now
             (set_session sender initial_session
                (send_message sender (queued_message (py_strip (py_lower typed_name)) n)
                   (sys\<lparr>store := fst (save_user_data_to_db now sender
                                         (py_strip (py_lower typed_name)) n (store sys))\<rparr>)))"
    unfolding webhook_name_people [OF 1 2 3]
    by (rule name_people_step_accepted [OF p pos le wf])
  show "store (webhook now sender ''text'' (typed_name @ CHR '','' # typed_count) sys) =
        fst (attempt_seating_allocation now
               (fst (save_user_data_to_db now sender (py_strip (py_lower typed_name)) n (store sys))))"
    by (simp add: acc run_allocation_parts set_session_def send_message_def)
  show "entries_for sender
          (fst (save_user_data_to_db now sender (py_strip (py_lower typed_name)) n (store sys))) =
        [\<lparr>u_id = the (snd (save_user_data_to_db now sender (py_strip (py_lower typed_name)) n
                              (store sys))),
          phone_number = sender, name = py_strip (py_lower typed_name), people_count = n,
          u_timestamp = now\<rparr>]"
    by (rule entries_for_after_save [OF wf])
  show "py_lower (py_strip (py_lower typed_name)) = py_strip (py_lower typed_name)"
    by (rule py_lower_py_strip_py_lower)
  show "list_all (\<lambda>c. \<not> is_upper_char c) (py_strip (py_lower typed_name))"
    by (intro py_strip_no_upper py_lower_no_upper)
next
  show "py_lower ''ABCDEFGHIJKLMNOPQRSTUVWXYZ abc 0123456789,_'' =
     ''abcdefghijklmnopqrstuvwxyz abc 0123456789,_''"
    by code_simp
  show "py_lower [CHR 0xC0, CHR 0xC9, CHR 0xD6, CHR 0xD7, CHR 0xD8, CHR 0xDE, CHR 0xDF, CHR 0xE9, CHR 0xFF] =
     [CHR 0xE0, CHR 0xE9, CHR 0xF6, CHR 0xD7, CHR 0xF8, CHR 0xFE, CHR 0xDF, CHR 0xE9, CHR 0xFF]"
    by code_simp
  show "map (\<lambda>b. py_strip (py_lower b))
     [''hi'', ''Hi'', ''HI'', '' hI'' @ [CHR 0xA0], ''WAITER'', [CHR 0x85] @ ''Waiter '', ''Waiter123'',
      ''WAITER123'', ''h i''] =
     [''hi'', ''hi'', ''hi'', ''hi'', ''waiter'', ''waiter'', ''waiter123'', ''waiter123'', ''h i'']"
    by code_simp
  show "py_lower (py_lower body) = py_lower body"
    by (intro py_lower_fixed py_lower_no_upper)
  show "length (py_lower body) = length body"
    by (simp add: py_lower_def)
qed

lemma py_lower_examples:
  "py_strip (py_lower (''Hi'' @ [CHR 0xA0])) = ''hi''" "py_strip (py_lower ''WAITER'') = ''waiter''"
  "py_strip (py_lower ''Waiter123'') = ''waiter123''"
  "py_int (py_strip (py_lower ('' 3'' @ [CHR 0xA0]))) = Some 3"
  "py_strip (py_lower ([CHR 0xC9] @ ''MILE Zola '')) = [CHR 0xE9] @ ''mile zola''"
  by code_simp+

theorem inbound_text_lowercased_witness:
  "user_states nobody_yet ''15550001'' = None \<and> py_strip (py_lower (''Hi'' @ [CHR 0xA0])) = ''hi'' \<and>
   user_states (webhook 1 ''15550001'' ''text'' (''Hi'' @ [CHR 0xA0]) nobody_yet) ''15550001'' =
     Some \<lparr>role = ''customer'', state = ''awaiting_name_people'', data = []\<rparr> \<and>
   py_strip (py_lower ''WAITER'') = ''waiter'' \<and>
   user_states (webhook 1 ''15550001'' ''text'' ''WAITER'' nobody_yet) ''15550001'' =
     Some \<lparr>role = ''waiter'', state = ''awaiting_waiter_password'', data = []\<rparr> \<and>
   user_states waiter_at_password_prompt ''15550009'' = Some password_session \<and>
   state password_session = ''awaiting_waiter_password'' \<and> role password_session = ''waiter'' \<and>
   py_strip (py_lower ''Waiter123'') = ''waiter123'' \<and>
   user_states (webhook 1 ''15550009'' ''text'' ''Waiter123'' waiter_at_password_prompt) ''15550009'' =
     Some (password_session\<lparr>state := ''awaiting_free_table_number''\<rparr>) \<and>
   user_states customer_at_name_prompt ''15550001'' = Some customer_session \<and>
   state customer_session = ''awaiting_name_people'' \<and> role customer_session = ''customer'' \<and>
   users_wf (store customer_at_name_prompt) \<and>
   CHR '','' \<notin> set ([CHR 0xC9] @ ''MILE Zola '') \<and> CHR '','' \<notin> set ('' 3'' @ [CHR 0xA0]) \<and>
   py_int (py_strip (py_lower ('' 3'' @ [CHR 0xA0]))) = Some 3 \<and>
   entries_for ''15550001''
     (fst (save_user_data_to_db 5 ''15550001'' (py_strip (py_lower ([CHR 0xC9] @ ''MILE Zola ''))) 3
            (store customer_at_name_prompt))) =
     [\<lparr>u_id = 1, phone_number = ''15550001'', name = [CHR 0xE9] @ ''mile zola'', people_count = 3,
       u_timestamp = 5\<rparr>] \<and>
   user_states back_at_start ''15550001'' = Some initial_session \<and>
   state initial_session = ''initial'' \<and>
   py_strip (py_lower ''HI '') = ''hi'' \<and>
   user_states (webhook 1 ''15550001'' ''text'' ''HI '' back_at_start) ''15550001'' =
     Some \<lparr>role = ''customer'', state = ''awaiting_name_people'', data = []\<rparr> \<and>
   outbox (webhook 1 ''15550001'' ''text'' ''HI '' back_at_start) =
     [(''15550001'', ''Enter your name and how many people are there (e.g., John, 5)'')] \<and>
   py_strip (py_lower ([CHR 0x85] @ ''Waiter '')) = ''waiter'' \<and>
   user_states (webhook 1 ''15550001'' ''text'' ([CHR 0x85] @ ''Waiter '') back_at_start) ''15550001'' =
     Some \<lparr>role = ''waiter'', state = ''awaiting_waiter_password'', data = []\<rparr> \<and>
   outbox (webhook 1 ''15550001'' ''text'' ([CHR 0x85] @ ''Waiter '') back_at_start) =
     [(''15550001'', ''Please enter the waiter password.'')]"
proof -
  have first_part: "user_states nobody_yet ''15550001'' = None \<and> py_strip (py_lower (''Hi'' @ [CHR 0xA0])) = ''hi'' \<and>
   user_states (webhook 1 ''15550001'' ''text'' (''Hi'' @ [CHR 0xA0]) nobody_yet) ''15550001'' =
     Some \<lparr>role = ''customer'', state = ''awaiting_name_people'', data = []\<rparr> \<and>
   py_strip (py_lower ''WAITER'') = ''waiter'' \<and>
   user_states (webhook 1 ''15550001'' ''text'' ''WAITER'' nobody_yet) ''15550001'' =
     Some \<lparr>role = ''waiter'', state = ''awaiting_waiter_password'', data = []\<rparr> \<and>
   user_states waiter_at_password_prompt ''15550009'' = Some password_session \<and>
   state password_session = ''awaiting_waiter_password'' \<and> role password_session = ''waiter'' \<and>
   py_strip (py_lower ''Waiter123'') = ''waiter123'' \<and>
   user_states (webhook 1 ''15550009'' ''text'' ''Waiter123'' waiter_at_password_prompt) ''15550009'' =
     Some (password_session\<lparr>state := ''awaiting_free_table_number''\<rparr>) \<and>
   user_states customer_at_name_prompt ''15550001'' = Some customer_session \<and>
   state customer_session = ''awaiting_name_people'' \<and> role customer_session = ''customer'' \<and>
   users_wf (store customer_at_name_prompt) \<and>
   CHR '','' \<notin> set ([CHR 0xC9] @ ''MILE Zola '') \<and> CHR '','' \<notin> set ('' 3'' @ [CHR 0xA0]) \<and>
   py_int (py_strip (py_lower ('' 3'' @ [CHR 0xA0]))) = Some 3 \<and>
   entries_for ''15550001''
     (fst (save_user_data_to_db 5 ''15550001'' (py_strip (py_lower ([CHR 0xC9] @ ''MILE Zola ''))) 3
            (store customer_at_name_prompt))) =
     [\<lparr>u_id = 1, phone_number = ''15550001'', name = [CHR 0xE9] @ ''mile zola'', people_count = 3,
       u_timestamp = 5\<rparr>]"
  proof -
    have n: "user_states nobody_yet ''15550001'' = None" by (simp add: nobody_yet_def)
    have p: "user_states waiter_at_password_prompt ''15550009'' = Some password_session"
      by (simp add: waiter_at_password_prompt_def)
    have pst: "state password_session = ''awaiting_waiter_password''"
      and pro: "role password_session = ''waiter''"
      by (simp_all add: password_session_def)
    have s: "user_states customer_at_name_prompt ''15550001'' = Some customer_session"
      by (simp add: customer_at_name_prompt_def)
    have st: "state customer_session = ''awaiting_name_people''"
      and ro: "role customer_session = ''customer''"
      by (simp_all add: customer_session_def)
    have wf: "users_wf (store customer_at_name_prompt)"
      by (simp add: customer_at_name_prompt_def users_wf_seeded)
    have commas: "CHR '','' \<notin> set ([CHR 0xC9] @ ''MILE Zola '')" "CHR '','' \<notin> set ('' 3'' @ [CHR 0xA0])" by simp_all
    have three: "(0::int) < 3" "(3::int) \<le> 6" by simp_all
    have first_id: "the (snd (save_user_data_to_db 5 ''15550001'' ([CHR 0xE9] @ ''mile zola'') 3
              (store customer_at_name_prompt))) = 1"
      unfolding customer_at_name_prompt_def by code_simp
    from n py_lower_examples(1)
      inbound_text_lowercased [where sys = nobody_yet and sender = "''15550001''" and body = "''Hi'' @ [CHR 0xA0]"
        and now = 1]
    have r1: "user_states (webhook 1 ''15550001'' ''text'' (''Hi'' @ [CHR 0xA0]) nobody_yet) ''15550001'' =
       Some \<lparr>role = ''customer'', state = ''awaiting_name_people'', data = []\<rparr>" by blast
    from n py_lower_examples(2)
      inbound_text_lowercased [where sys = nobody_yet and sender = "''15550001''"
        and body = "''WAITER''" and now = 1]
    have r2: "user_states (webhook 1 ''15550001'' ''text'' ''WAITER'' nobody_yet) ''15550001'' =
       Some \<lparr>role = ''waiter'', state = ''awaiting_waiter_password'', data = []\<rparr>" by blast
    from p pst pro py_lower_examples(3)
      inbound_text_lowercased [where sys = waiter_at_password_prompt and sender = "''15550009''"
        and body = "''Waiter123''" and now = 1 and s = password_session]
    have r3: "user_states (webhook 1 ''15550009'' ''text'' ''Waiter123'' waiter_at_password_prompt) ''15550009'' =
       Some (password_session\<lparr>state := ''awaiting_free_table_number''\<rparr>)" by blast
    from s st ro wf commas py_lower_examples(4) three
      inbound_text_lowercased [where sys = customer_at_name_prompt and sender = "''15550001''"
        and s = customer_session and typed_name = "[CHR 0xC9] @ ''MILE Zola ''" and typed_count = "'' 3'' @ [CHR 0xA0]"
        and n = 3 and now = 5]
    have r4: "entries_for ''15550001''
            (fst (save_user_data_to_db 5 ''15550001'' (py_strip (py_lower ([CHR 0xC9] @ ''MILE Zola ''))) 3
                   (store customer_at_name_prompt))) =
          [\<lparr>u_id = the (snd (save_user_data_to_db 5 ''15550001'' (py_strip (py_lower ([CHR 0xC9] @ ''MILE Zola ''))) 3
                                (store customer_at_name_prompt))),
            phone_number = ''15550001'', name = py_strip (py_lower ([CHR 0xC9] @ ''MILE Zola '')), people_count = 3,
            u_timestamp = 5\<rparr>]" by blast
    have r4': "entries_for ''15550001''
       (fst (save_user_data_to_db 5 ''15550001'' (py_strip (py_lower ([CHR 0xC9] @ ''MILE Zola ''))) 3
              (store customer_at_name_prompt))) =
       [\<lparr>u_id = 1, phone_number = ''15550001'', name = [CHR 0xE9] @ ''mile zola'', people_count = 3,
         u_timestamp = 5\<rparr>]"
      using r4 unfolding py_lower_examples(5) first_id .
    from n py_lower_examples(1-4) r1 r2 p pst pro r3 s st ro wf commas r4'
    show ?thesis by blast
  qed
  have second_part: "user_states back_at_start ''15550001'' = Some initial_session \<and>
   state initial_session = ''initial'' \<and>
   py_strip (py_lower ''HI '') = ''hi'' \<and>
   user_states (webhook 1 ''15550001'' ''text'' ''HI '' back_at_start) ''15550001'' =
     Some \<lparr>role = ''customer'', state = ''awaiting_name_people'', data = []\<rparr> \<and>
   outbox (webhook 1 ''15550001'' ''text'' ''HI '' back_at_start) =
     [(''15550001'', ''Enter your name and how many people are there (e.g., John, 5)'')] \<and>
   py_strip (py_lower ([CHR 0x85] @ ''Waiter '')) = ''waiter'' \<and>
   user_states (webhook 1 ''15550001'' ''text'' ([CHR 0x85] @ ''Waiter '') back_at_start) ''15550001'' =
     Some \<lparr>role = ''waiter'', state = ''awaiting_waiter_password'', data = []\<rparr> \<and>
   outbox (webhook 1 ''15550001'' ''text'' ([CHR 0x85] @ ''Waiter '') back_at_start) =
     [(''15550001'', ''Please enter the waiter password.'')]"
  proof -
    have b: "user_states back_at_start ''15550001'' = Some initial_session"
      and bo: "outbox back_at_start = []"
      by (simp_all add: back_at_start_def)
    have bi: "state initial_session = ''initial''" by (simp add: initial_session_def)
    have hi: "py_strip (py_lower ''HI '') = ''hi''"
      and wa: "py_strip (py_lower ([CHR 0x85] @ ''Waiter '')) = ''waiter''" by code_simp+
    from b bi hi
      inbound_text_lowercased [where sys = back_at_start and sender = "''15550001''"
        and s = initial_session and body = "''HI ''" and now = 1]
    have r5: "user_states (webhook 1 ''15550001'' ''text'' ''HI '' back_at_start) ''15550001'' =
          Some (initial_session\<lparr>state := ''awaiting_name_people'', role := ''customer''\<rparr>)"
      and o5: "outbox (webhook 1 ''15550001'' ''text'' ''HI '' back_at_start) =
          outbox back_at_start @
            [(''15550001'', ''Enter your name and how many people are there (e.g., John, 5)'')]"
      by blast+
    from b bi wa
      inbound_text_lowercased [where sys = back_at_start and sender = "''15550001''"
        and s = initial_session and body = "[CHR 0x85] @ ''Waiter ''" and now = 1]
    have r6: "user_states (webhook 1 ''15550001'' ''text'' ([CHR 0x85] @ ''Waiter '') back_at_start) ''15550001'' =
          Some (initial_session\<lparr>state := ''awaiting_waiter_password'', role := ''waiter''\<rparr>)"
      and o6: "outbox (webhook 1 ''15550001'' ''text'' ([CHR 0x85] @ ''Waiter '') back_at_start) =
          outbox back_at_start @ [(''15550001'', ''Please enter the waiter password.'')]"
      by blast+
    have r5': "user_states (webhook 1 ''15550001'' ''text'' ''HI '' back_at_start) ''15550001'' =
       Some \<lparr>role = ''customer'', state = ''awaiting_name_people'', data = []\<rparr>"
      unfolding r5 by (simp add: initial_session_def)
    have r6': "user_states (webhook 1 ''15550001'' ''text'' ([CHR 0x85] @ ''Waiter '') back_at_start) ''15550001'' =
       Some \<lparr>role = ''waiter'', state = ''awaiting_waiter_password'', data = []\<rparr>"
      unfolding r6 by (simp add: initial_session_def)
    have o5': "outbox (webhook 1 ''15550001'' ''text'' ''HI '' back_at_start) =
       [(''15550001'', ''Enter your name and how many people are there (e.g., John, 5)'')]"
      unfolding o5 bo by simp
    have o6': "outbox (webhook 1 ''15550001'' ''text'' ([CHR 0x85] @ ''Waiter '') back_at_start) =
       [(''15550001'', ''Please enter the waiter password.'')]"
      unfolding o6 bo by simp
    from b bi hi r5' o5' wa r6' o6' show ?thesis by blast
  qed
  from first_part second_part show ?thesis by blast
qed

end
